theory Spec2Isabelle
  imports Main
begin

section \<open>Data model (main/models.py)\<close>

text \<open>
  The shop keeps three tables that matter for the cart: products, carts and cart items.
  Primary keys are natural numbers. A price is a \<^verbatim>\<open>DecimalField(max_digits=10,
  decimal_places=2)\<close>; it is kept as an integer number of hundredths, so that
  \<^verbatim>\<open>quantity * price\<close> and the sums over them are exact, as they are for Python's
  \<^verbatim>\<open>Decimal\<close>. A quantity is a Python \<^verbatim>\<open>int\<close>.
\<close>

record Product =
  price :: int
  available :: bool

record Cart =
  cart_pk :: nat
  user :: "nat option"
  session_key :: "string option"

record CartItem =
  pk :: nat
  cart :: nat
  product :: nat
  quantity :: int

text \<open>
  The process-wide cache of \<^verbatim>\<open>django.core.cache\<close>. Three families of keys occur in the
  cart code: \<^verbatim>\<open>f'cart_total_{id}'\<close>, \<^verbatim>\<open>f'cart_items_{id}'\<close> (both in
  \<^verbatim>\<open>Cart\<close>) and \<^verbatim>\<open>f'cart_{id}'\<close> (in main/views.py). For every pair of ids the three
  strings differ, so each family is a constructor of its own.
\<close>

datatype cache_key =
    CartTotalKey nat
  | CartItemsKey nat
  | CartKey nat

record store =
  products :: "nat \<rightharpoonup> Product"
  carts :: "Cart list"
  cart_items :: "CartItem list"
  cache :: "cache_key \<rightharpoonup> int"
  next_cart_pk :: nat
  next_item_pk :: nat

text \<open>
  The exceptions that the cart code raises or lets through. \<^verbatim>\<open>json.JSONDecodeError\<close> is
  a \<^verbatim>\<open>ValueError\<close>; all of them are \<^verbatim>\<open>Exception\<close>s.
\<close>

datatype error =
    DoesNotExist
  | MultipleObjectsReturned
  | ValidationError
  | Http404
  | JSONDecodeError
  | ValueError
  | KeyError
  | NameError

subsection \<open>The cache backend\<close>

definition cache_get :: "store \<Rightarrow> cache_key \<Rightarrow> int option" where
  "cache_get s k = cache s k"

definition cache_set :: "store \<Rightarrow> cache_key \<Rightarrow> int \<Rightarrow> store" where
  "cache_set s k v = s\<lparr>cache := (cache s)(k \<mapsto> v)\<rparr>"

definition cache_delete :: "store \<Rightarrow> cache_key \<Rightarrow> store" where
  "cache_delete s k = s\<lparr>cache := (cache s)(k := None)\<rparr>"

subsection \<open>Cart and CartItem\<close>

text \<open>\<^verbatim>\<open>cart.items.all()\<close>: the rows of the reverse relation, in table order.\<close>

definition Cart_items :: "store \<Rightarrow> nat \<Rightarrow> CartItem list" where
  "Cart_items s c = filter (\<lambda>i. cart i = c) (cart_items s)"

text \<open>
  \<^verbatim>\<open>CartItem.total_price\<close> is \<^verbatim>\<open>self.quantity * self.product.price\<close>. Following the
  foreign key raises \<^verbatim>\<open>Product.DoesNotExist\<close> when the row is gone: \<open>None\<close> here.
\<close>

definition CartItem_total_price :: "store \<Rightarrow> CartItem \<Rightarrow> int option" where
  "CartItem_total_price s i =
     (case products s (product i) of
        None \<Rightarrow> None
      | Some p \<Rightarrow> Some (quantity i * price p))"

text \<open>
  \<^verbatim>\<open>Cart.total_price\<close> and \<^verbatim>\<open>Cart.total_items\<close>: look the cache up, and on a miss sum
  over the items and store the sum. Both return the value and the store with the cache as
  the call left it. The time to live of an entry (300 seconds) is not part of the model;
  an expiry is a \<open>cache_delete\<close> by the environment.
\<close>

definition Cart_total_price :: "store \<Rightarrow> nat \<Rightarrow> (int \<times> store) option" where
  "Cart_total_price s c =
     (case cache_get s (CartTotalKey c) of
        Some tot \<Rightarrow> Some (tot, s)
      | None \<Rightarrow>
          (case those (map (CartItem_total_price s) (Cart_items s c)) of
             None \<Rightarrow> None
           | Some ts \<Rightarrow>
               (let tot = sum_list ts
                in Some (tot, cache_set s (CartTotalKey c) tot))))"

definition Cart_total_items :: "store \<Rightarrow> nat \<Rightarrow> int \<times> store" where
  "Cart_total_items s c =
     (case cache_get s (CartItemsKey c) of
        Some tot \<Rightarrow> (tot, s)
      | None \<Rightarrow>
          (let tot = sum_list (map quantity (Cart_items s c))
           in (tot, cache_set s (CartItemsKey c) tot)))"

definition Cart_clear_cache :: "store \<Rightarrow> nat \<Rightarrow> store" where
  "Cart_clear_cache s c = cache_delete (cache_delete s (CartTotalKey c)) (CartItemsKey c)"

text \<open>
  \<^verbatim>\<open>CartItem.save\<close> and \<^verbatim>\<open>CartItem.delete\<close> call the model's own method and then clear
  the cart's cache. \<open>CartItem_save\<close> is the save of an instance that was loaded from the
  table: it rewrites the row with the instance's primary key.
\<close>

definition CartItem_save :: "store \<Rightarrow> CartItem \<Rightarrow> store" where
  "CartItem_save s i =
     Cart_clear_cache
       (s\<lparr>cart_items := map (\<lambda>j. if pk j = pk i then i else j) (cart_items s)\<rparr>)
       (cart i)"

definition CartItem_delete :: "store \<Rightarrow> CartItem \<Rightarrow> store" where
  "CartItem_delete s i =
     Cart_clear_cache
       (s\<lparr>cart_items := filter (\<lambda>j. pk j \<noteq> pk i) (cart_items s)\<rparr>)
       (cart i)"

text \<open>
  \<^verbatim>\<open>cart.items.all().delete()\<close> is the queryset's bulk delete: it removes the rows and
  does not run \<^verbatim>\<open>CartItem.delete\<close> on any of them, so it leaves the cache alone.
\<close>

definition QuerySet_delete :: "store \<Rightarrow> nat \<Rightarrow> store" where
  "QuerySet_delete s c = s\<lparr>cart_items := filter (\<lambda>i. cart i \<noteq> c) (cart_items s)\<rparr>"

subsection \<open>Manager queries\<close>

text \<open>
  \<^verbatim>\<open>objects.create\<close> inserts a row under a fresh primary key through the instance's
  \<^verbatim>\<open>save\<close>, so a new cart item clears the cart's cache as well.
\<close>

definition CartItem_objects_create :: "store \<Rightarrow> nat \<Rightarrow> nat \<Rightarrow> int \<Rightarrow> CartItem \<times> store" where
  "CartItem_objects_create s c p q =
     (let i = \<lparr>pk = next_item_pk s, cart = c, product = p, quantity = q\<rparr>
      in (i, Cart_clear_cache
               (s\<lparr>cart_items := cart_items s @ [i], next_item_pk := Suc (next_item_pk s)\<rparr>)
               c))"

text \<open>
  \<^verbatim>\<open>CartItem.objects.get_or_create(cart=cart, product=product, defaults={'quantity':
  quantity})\<close>: the row if there is exactly one, a new row if there is none, and
  \<^verbatim>\<open>MultipleObjectsReturned\<close> otherwise. The flag is \<^verbatim>\<open>created\<close>.
\<close>

definition CartItem_get_or_create ::
  "store \<Rightarrow> nat \<Rightarrow> nat \<Rightarrow> int \<Rightarrow> error + (CartItem \<times> bool \<times> store)" where
  "CartItem_get_or_create s c p q =
     (case filter (\<lambda>i. cart i = c \<and> product i = p) (cart_items s) of
        [] \<Rightarrow> (let (i, s') = CartItem_objects_create s c p q in Inr (i, True, s'))
      | [i] \<Rightarrow> Inr (i, False, s)
      | _ \<Rightarrow> Inl MultipleObjectsReturned)"

definition Cart_objects_create :: "store \<Rightarrow> nat option \<Rightarrow> string option \<Rightarrow> Cart \<times> store" where
  "Cart_objects_create s u k =
     (let c = \<lparr>cart_pk = next_cart_pk s, user = u, session_key = k\<rparr>
      in (c, s\<lparr>carts := carts s @ [c], next_cart_pk := Suc (next_cart_pk s)\<rparr>))"

definition Cart_get_or_create_user :: "store \<Rightarrow> nat \<Rightarrow> error + (Cart \<times> store)" where
  "Cart_get_or_create_user s u =
     (case filter (\<lambda>c. user c = Some u) (carts s) of
        [] \<Rightarrow> Inr (Cart_objects_create s (Some u) None)
      | [c] \<Rightarrow> Inr (c, s)
      | _ \<Rightarrow> Inl MultipleObjectsReturned)"

definition Cart_get_or_create_session :: "store \<Rightarrow> string \<Rightarrow> error + (Cart \<times> store)" where
  "Cart_get_or_create_session s k =
     (case filter (\<lambda>c. session_key c = Some k) (carts s) of
        [] \<Rightarrow> Inr (Cart_objects_create s None (Some k))
      | [c] \<Rightarrow> Inr (c, s)
      | _ \<Rightarrow> Inl MultipleObjectsReturned)"

text \<open>\<^verbatim>\<open>Product.objects.get(id=product_id, available=True)\<close>; \<open>None\<close> is
  \<^verbatim>\<open>Product.DoesNotExist\<close>.\<close>

definition Product_get_available :: "store \<Rightarrow> nat \<Rightarrow> Product option" where
  "Product_get_available s product_id =
     (case products s product_id of
        None \<Rightarrow> None
      | Some p \<Rightarrow> if available p then Some p else None)"

text \<open>\<^verbatim>\<open>get_object_or_404(CartItem, id=item_id)\<close>; \<open>None\<close> is \<^verbatim>\<open>Http404\<close>.\<close>

definition CartItem_get :: "store \<Rightarrow> nat \<Rightarrow> CartItem option" where
  "CartItem_get s item_id = find (\<lambda>i. pk i = item_id) (cart_items s)"

section \<open>Serializers (main/serializers.py)\<close>

text \<open>
  What a response carries. The messages of the source are Russian sentences; each is a
  constructor here. A cart snapshot has the cart's key, its items (each with its line
  total), \<^verbatim>\<open>total_items\<close> and \<^verbatim>\<open>total_price\<close>.
\<close>

datatype payload =
    CartData nat "(CartItem \<times> int) list" int int
  | CartItemData CartItem int
  | SummaryData int int nat
  | RemovedMessage
  | ProductNotFoundError
  | SerializerErrors
  | Detail

record response =
  status :: nat
  data :: payload

definition CartItemSerializer_validate_quantity :: "int \<Rightarrow> error + int" where
  "CartItemSerializer_validate_quantity v =
     (if v < 1 then Inl ValidationError
      else if v > 99 then Inl ValidationError
      else Inr v)"

definition CartItemCreateSerializer_validate_quantity :: "int \<Rightarrow> error + int" where
  "CartItemCreateSerializer_validate_quantity v =
     (if v < 1 then Inl ValidationError
      else if v > 99 then Inl ValidationError
      else Inr v)"

text \<open>
  \<^verbatim>\<open>CartItemCreateSerializer\<close> lists \<^verbatim>\<open>product_id\<close> in \<^verbatim>\<open>Meta.fields\<close> and does not
  declare it (\<^verbatim>\<open>CartItemSerializer\<close> does, as a write-only integer field). The name is
  no field of the model but an attribute of it, and a \<^verbatim>\<open>ModelSerializer\<close> builds such a
  name as a read-only field, which never reaches \<^verbatim>\<open>validated_data\<close>. So after
  \<^verbatim>\<open>is_valid()\<close> the validated data hold the quantity and no product key, whatever the
  request sent.
\<close>

definition CartItemCreateSerializer_is_valid :: "nat \<Rightarrow> int \<Rightarrow> error + (nat option \<times> int)" where
  "CartItemCreateSerializer_is_valid sent_product_id sent_quantity =
     (case CartItemCreateSerializer_validate_quantity sent_quantity of
        Inl e \<Rightarrow> Inl e
      | Inr v \<Rightarrow> Inr (None, v))"

text \<open>
  \<^verbatim>\<open>CartItemSerializer(cart_item).data\<close>: the nested product and the line total both
  follow the item's foreign key.
\<close>

definition CartItemSerializer_data :: "store \<Rightarrow> CartItem \<Rightarrow> (CartItem \<times> int) option" where
  "CartItemSerializer_data s i =
     (case CartItem_total_price s i of
        None \<Rightarrow> None
      | Some t \<Rightarrow> Some (i, t))"

text \<open>
  \<^verbatim>\<open>CartSerializer(cart).data\<close> evaluates its fields in the order of \<^verbatim>\<open>Meta.fields\<close>:
  the items, then \<^verbatim>\<open>total_items\<close>, then \<^verbatim>\<open>total_price\<close>; the two totals go through the
  cache.
\<close>

definition CartSerializer_data :: "store \<Rightarrow> Cart \<Rightarrow> (payload \<times> store) option" where
  "CartSerializer_data s c =
     (case those (map (CartItemSerializer_data s) (Cart_items s (cart_pk c))) of
        None \<Rightarrow> None
      | Some ds \<Rightarrow>
          (let (n, s1) = Cart_total_items s (cart_pk c)
           in case Cart_total_price s1 (cart_pk c) of
                None \<Rightarrow> None
              | Some (t, s2) \<Rightarrow> Some (CartData (cart_pk c) ds n t, s2)))"

section \<open>The REST views (api/v1/views.py)\<close>

text \<open>
  The writing cart actions are POST, PUT and PATCH requests behind
  \<^verbatim>\<open>IsAuthenticatedOrReadOnly\<close> (eshop/settings.py), so their bodies run for an
  authenticated user \<open>u\<close> only, and the querysets hold nothing for anyone else; the
  model starts there. \<^verbatim>\<open>get_object\<close> looks the
  primary key up in \<^verbatim>\<open>get_queryset\<close> and answers 404 when it is not there. An exception
  that no handler takes is a 500 response. No view runs in a transaction, so what was
  written before an exception stays written. The add-item payload is taken as the two
  integers \<^verbatim>\<open>product_id\<close> and \<^verbatim>\<open>quantity\<close>.
\<close>

definition CartViewSet_get_queryset :: "store \<Rightarrow> nat \<Rightarrow> Cart list" where
  "CartViewSet_get_queryset s u = filter (\<lambda>c. user c = Some u) (carts s)"

definition CartViewSet_get_object :: "store \<Rightarrow> nat \<Rightarrow> nat \<Rightarrow> Cart option" where
  "CartViewSet_get_object s u k = find (\<lambda>c. cart_pk c = k) (CartViewSet_get_queryset s u)"

text \<open>
  \<^verbatim>\<open>add_item\<close> reads \<^verbatim>\<open>serializer.validated_data['product_id']\<close> first. The key is
  never there, so the subscript raises \<^verbatim>\<open>KeyError\<close> and the request ends in a 500
  response with the store as it was; the lines after it are written out as the source
  has them.
\<close>

definition CartViewSet_add_item ::
  "store \<Rightarrow> nat \<Rightarrow> nat \<Rightarrow> nat \<Rightarrow> int \<Rightarrow> response \<times> store" where
  "CartViewSet_add_item s u k sent_product_id sent_quantity =
     (case CartViewSet_get_object s u k of
        None \<Rightarrow> (\<lparr>status = 404, data = Detail\<rparr>, s)
      | Some c \<Rightarrow>
          (case CartItemCreateSerializer_is_valid sent_product_id sent_quantity of
             Inl e \<Rightarrow> (\<lparr>status = 400, data = SerializerErrors\<rparr>, s)
           | Inr (None, qv) \<Rightarrow> (\<lparr>status = 500, data = Detail\<rparr>, s)
           | Inr (Some product_id, qv) \<Rightarrow>
               (case Product_get_available s product_id of
                  None \<Rightarrow> (\<lparr>status = 404, data = ProductNotFoundError\<rparr>, s)
                | Some p \<Rightarrow>
                    (case CartItem_get_or_create s (cart_pk c) product_id qv of
                       Inl e \<Rightarrow> (\<lparr>status = 500, data = Detail\<rparr>, s)
                     | Inr (cart_item, created, s1) \<Rightarrow>
                         (let s2 =
                            (if \<not> created then
                               (let q = quantity cart_item + qv;
                                    q' = (if q > 99 then 99 else q)
                                in CartItem_save s1 (cart_item\<lparr>quantity := q'\<rparr>))
                             else s1)
                          in case CartSerializer_data s2 c of
                               None \<Rightarrow> (\<lparr>status = 500, data = Detail\<rparr>, s2)
                             | Some (d, s3) \<Rightarrow> (\<lparr>status = 200, data = d\<rparr>, s3))))))"

definition CartViewSet_clear :: "store \<Rightarrow> nat \<Rightarrow> nat \<Rightarrow> response \<times> store" where
  "CartViewSet_clear s u k =
     (case CartViewSet_get_object s u k of
        None \<Rightarrow> (\<lparr>status = 404, data = Detail\<rparr>, s)
      | Some c \<Rightarrow>
          (let s1 = QuerySet_delete s (cart_pk c)
           in case CartSerializer_data s1 c of
                None \<Rightarrow> (\<lparr>status = 500, data = Detail\<rparr>, s1)
              | Some (d, s2) \<Rightarrow> (\<lparr>status = 200, data = d\<rparr>, s2)))"

definition CartViewSet_summary :: "store \<Rightarrow> nat \<Rightarrow> nat \<Rightarrow> response \<times> store" where
  "CartViewSet_summary s u k =
     (case CartViewSet_get_object s u k of
        None \<Rightarrow> (\<lparr>status = 404, data = Detail\<rparr>, s)
      | Some c \<Rightarrow>
          (let (n, s1) = Cart_total_items s (cart_pk c)
           in case Cart_total_price s1 (cart_pk c) of
                None \<Rightarrow> (\<lparr>status = 500, data = Detail\<rparr>, s1)
              | Some (t, s2) \<Rightarrow>
                  (\<lparr>status = 200,
                    data = SummaryData n t (length (Cart_items s2 (cart_pk c)))\<rparr>, s2)))"

definition CartItemViewSet_get_queryset :: "store \<Rightarrow> nat \<Rightarrow> CartItem list" where
  "CartItemViewSet_get_queryset s u =
     filter (\<lambda>i. list_ex (\<lambda>c. cart_pk c = cart i \<and> user c = Some u) (carts s)) (cart_items s)"

definition CartItemViewSet_get_object :: "store \<Rightarrow> nat \<Rightarrow> nat \<Rightarrow> CartItem option" where
  "CartItemViewSet_get_object s u k = find (\<lambda>i. pk i = k) (CartItemViewSet_get_queryset s u)"

text \<open>
  \<^verbatim>\<open>perform_update\<close> gets the serializer after validation. Its \<^verbatim>\<open>validated_data\<close> holds
  a quantity only when the request sent one (a PATCH may leave it out), which is why the
  source falls back on \<^verbatim>\<open>instance.quantity\<close>. The result is the instance as the method
  leaves it, and the store.
\<close>

definition CartItemViewSet_perform_update ::
  "store \<Rightarrow> CartItem \<Rightarrow> int option \<Rightarrow> CartItem \<times> store" where
  "CartItemViewSet_perform_update s instance validated_quantity =
     (let qty = (case validated_quantity of Some q \<Rightarrow> q | None \<Rightarrow> quantity instance)
      in if qty < 1 then (instance, CartItem_delete s instance)
         else (instance\<lparr>quantity := qty\<rparr>, CartItem_save s (instance\<lparr>quantity := qty\<rparr>)))"

text \<open>
  The serializer's validation of an update. \<^verbatim>\<open>product_id\<close> is declared without a
  default, so a full update (PUT, \<open>partial\<close> false) that does not send it is refused; a
  partial update (PATCH) may leave any field out. \<^verbatim>\<open>validate_quantity\<close> runs on the
  quantity the request sent, and not at all when it sent none. Only the quantity of the
  validated data is read afterwards.
\<close>

definition CartItemSerializer_is_valid ::
  "bool \<Rightarrow> nat option \<Rightarrow> int option \<Rightarrow> error + int option" where
  "CartItemSerializer_is_valid partial sent_product_id sent_quantity =
     (if \<not> partial \<and> sent_product_id = None then Inl ValidationError
      else
        (case sent_quantity of
           None \<Rightarrow> Inr None
         | Some v \<Rightarrow>
             (case CartItemSerializer_validate_quantity v of
                Inl e \<Rightarrow> Inl e
              | Inr v' \<Rightarrow> Inr (Some v'))))"

text \<open>
  The update action of the framework's \<^verbatim>\<open>ModelViewSet\<close> (PUT and PATCH on
  \<^verbatim>\<open>/cart-items/{id}/\<close>): fetch the object, validate with
  \<^verbatim>\<open>raise_exception=True\<close> (a 400 response), call \<^verbatim>\<open>perform_update\<close>, answer with the
  serialized instance.
\<close>

definition CartItemViewSet_update ::
  "store \<Rightarrow> nat \<Rightarrow> nat \<Rightarrow> bool \<Rightarrow> nat option \<Rightarrow> int option \<Rightarrow> response \<times> store" where
  "CartItemViewSet_update s u k partial sent_product_id sent_quantity =
     (case CartItemViewSet_get_object s u k of
        None \<Rightarrow> (\<lparr>status = 404, data = Detail\<rparr>, s)
      | Some instance \<Rightarrow>
          (case CartItemSerializer_is_valid partial sent_product_id sent_quantity of
             Inl e \<Rightarrow> (\<lparr>status = 400, data = SerializerErrors\<rparr>, s)
           | Inr validated \<Rightarrow>
               (let (instance', s1) = CartItemViewSet_perform_update s instance validated
                in case CartItemSerializer_data s1 instance' of
                     None \<Rightarrow> (\<lparr>status = 500, data = Detail\<rparr>, s1)
                   | Some (i, t) \<Rightarrow> (\<lparr>status = 200, data = CartItemData i t\<rparr>, s1))))"

definition CartItemViewSet_increment :: "store \<Rightarrow> nat \<Rightarrow> nat \<Rightarrow> response \<times> store" where
  "CartItemViewSet_increment s u k =
     (case CartItemViewSet_get_object s u k of
        None \<Rightarrow> (\<lparr>status = 404, data = Detail\<rparr>, s)
      | Some cart_item \<Rightarrow>
          (let q = quantity cart_item + 1;
               q' = (if q > 99 then 99 else q);
               cart_item' = cart_item\<lparr>quantity := q'\<rparr>;
               s1 = CartItem_save s cart_item'
           in case CartItemSerializer_data s1 cart_item' of
                None \<Rightarrow> (\<lparr>status = 500, data = Detail\<rparr>, s1)
              | Some (i, t) \<Rightarrow> (\<lparr>status = 200, data = CartItemData i t\<rparr>, s1)))"

definition CartItemViewSet_decrement :: "store \<Rightarrow> nat \<Rightarrow> nat \<Rightarrow> response \<times> store" where
  "CartItemViewSet_decrement s u k =
     (case CartItemViewSet_get_object s u k of
        None \<Rightarrow> (\<lparr>status = 404, data = Detail\<rparr>, s)
      | Some cart_item \<Rightarrow>
          (let cart_item' = cart_item\<lparr>quantity := quantity cart_item - 1\<rparr>
           in if quantity cart_item' < 1 then
                (\<lparr>status = 200, data = RemovedMessage\<rparr>, CartItem_delete s cart_item')
              else
                (let s1 = CartItem_save s cart_item'
                 in case CartItemSerializer_data s1 cart_item' of
                      None \<Rightarrow> (\<lparr>status = 500, data = Detail\<rparr>, s1)
                    | Some (i, t) \<Rightarrow> (\<lparr>status = 200, data = CartItemData i t\<rparr>, s1))))"

section \<open>The storefront views (main/views.py)\<close>

text \<open>
  A storefront request carries the authenticated user, if any, and the session key of its
  cookie; \<open>new_session\<close> is the key that \<^verbatim>\<open>request.session.create()\<close> would allocate.
  The body is what \<^verbatim>\<open>json.loads\<close> and \<^verbatim>\<open>int(data.get('quantity', 1))\<close> make of it:
  absent, not JSON, a quantity that \<^verbatim>\<open>int\<close> refuses with \<^verbatim>\<open>ValueError\<close>, or an object
  with an integer quantity or none.
\<close>

record request =
  auth_user :: "nat option"
  session :: "string option"
  new_session :: string

datatype request_body =
    NoBody
  | InvalidJson
  | QuantityNotInt
  | Payload "int option"

definition CartMixin_get_cart :: "store \<Rightarrow> request \<Rightarrow> error + (Cart \<times> store)" where
  "CartMixin_get_cart s r =
     (case auth_user r of
        Some u \<Rightarrow> Cart_get_or_create_user s u
      | None \<Rightarrow>
          (let k = (case session r of
                      None \<Rightarrow> new_session r
                    | Some k \<Rightarrow> if k = [] then new_session r else k)
           in Cart_get_or_create_session s k))"

text \<open>
  Every \<^verbatim>\<open>return\<close> of the four cart views, and every one of their \<^verbatim>\<open>except\<close>
  handlers, calls \<^verbatim>\<open>JsonResponse\<close>, and the module never imports that name: its imports
  are \<^verbatim>\<open>json\<close>, \<^verbatim>\<open>cache\<close>, \<^verbatim>\<open>Q\<close>, \<^verbatim>\<open>get_object_or_404\<close>, \<^verbatim>\<open>method_decorator\<close>,
  \<^verbatim>\<open>cache_page\<close>, \<^verbatim>\<open>require_POST\<close>, the generic views and the models. A call looks
  its callee up before it evaluates an argument, so every such call raises
  \<^verbatim>\<open>NameError\<close> and evaluates nothing else: the \<^verbatim>\<open>cart.total_items\<close> and
  \<^verbatim>\<open>cart.total_price\<close> among the arguments are never read. The arguments kept here are
  the \<^verbatim>\<open>success\<close> flag and the status code.
\<close>

definition JsonResponse :: "bool \<Rightarrow> nat \<Rightarrow> error + response" where
  "JsonResponse success status_code = Inl NameError"

text \<open>
  An exception that leaves a view is answered by the framework with a 500 response.
\<close>

definition uncaught :: "(error + response) \<times> store \<Rightarrow> response \<times> store" where
  "uncaught x =
     (case x of
        (Inl e, s) \<Rightarrow> (\<lparr>status = 500, data = Detail\<rparr>, s)
      | (Inr r, s) \<Rightarrow> (r, s))"

text \<open>
  Each view is one \<^verbatim>\<open>try\<close> statement. Its body is a definition of its own that gives
  the response or the exception raised, and the store at that point; the view then runs
  the handler that takes the exception. \<^verbatim>\<open>Http404\<close> and \<^verbatim>\<open>NameError\<close> are taken by
  \<^verbatim>\<open>except Exception\<close>, and what a handler raises leaves the view.
\<close>

definition add_to_cart_try ::
  "store \<Rightarrow> request \<Rightarrow> nat \<Rightarrow> request_body \<Rightarrow> (error + response) \<times> store" where
  "add_to_cart_try s r product_id b =
     (case b of
        NoBody \<Rightarrow> (JsonResponse False 400, s)
      | InvalidJson \<Rightarrow> (Inl JSONDecodeError, s)
      | QuantityNotInt \<Rightarrow> (Inl ValueError, s)
      | Payload sent \<Rightarrow>
          (let qty = (case sent of None \<Rightarrow> 1 | Some q \<Rightarrow> q)
           in if qty < 1 then (JsonResponse False 400, s)
              else if qty > 99 then (JsonResponse False 400, s)
              else
                (case Product_get_available s product_id of
                   None \<Rightarrow> (Inl Http404, s)
                 | Some p \<Rightarrow>
                     (case CartMixin_get_cart s r of
                        Inl e \<Rightarrow> (Inl e, s)
                      | Inr (c, s1) \<Rightarrow>
                          (case CartItem_get_or_create s1 (cart_pk c) product_id qty of
                             Inl e \<Rightarrow> (Inl e, s1)
                           | Inr (cart_item, created, s2) \<Rightarrow>
                               (let s3 =
                                  (if \<not> created then
                                     (let q = quantity cart_item + qty;
                                          q' = (if q > 99 then 99 else q)
                                      in CartItem_save s2 (cart_item\<lparr>quantity := q'\<rparr>))
                                   else s2);
                                    s4 = cache_delete s3 (CartKey (cart_pk c))
                                in (JsonResponse True 200, s4)))))))"

definition add_to_cart :: "store \<Rightarrow> request \<Rightarrow> nat \<Rightarrow> request_body \<Rightarrow> response \<times> store" where
  "add_to_cart s r product_id b =
     uncaught
       (case add_to_cart_try s r product_id b of
          (Inr x, s') \<Rightarrow> (Inr x, s')
        | (Inl JSONDecodeError, s') \<Rightarrow> (JsonResponse False 400, s')
        | (Inl ValueError, s') \<Rightarrow> (JsonResponse False 400, s')
        | (Inl e, s') \<Rightarrow> (JsonResponse False 500, s'))"

text \<open>
  \<^verbatim>\<open>update_cart_item\<close> has no test for an empty body: \<^verbatim>\<open>json.loads\<close> refuses it.
\<close>

definition update_cart_item_try ::
  "store \<Rightarrow> nat \<Rightarrow> request_body \<Rightarrow> (error + response) \<times> store" where
  "update_cart_item_try s item_id b =
     (case b of
        NoBody \<Rightarrow> (Inl JSONDecodeError, s)
      | InvalidJson \<Rightarrow> (Inl JSONDecodeError, s)
      | QuantityNotInt \<Rightarrow> (Inl ValueError, s)
      | Payload sent \<Rightarrow>
          (let qty = (case sent of None \<Rightarrow> 1 | Some q \<Rightarrow> q)
           in if qty < 1 then (JsonResponse False 400, s)
              else if qty > 99 then (JsonResponse False 400, s)
              else
                (case CartItem_get s item_id of
                   None \<Rightarrow> (Inl Http404, s)
                 | Some cart_item \<Rightarrow>
                     (let s1 = CartItem_save s (cart_item\<lparr>quantity := qty\<rparr>);
                          s2 = cache_delete s1 (CartKey (cart cart_item))
                      in (JsonResponse True 200, s2)))))"

definition update_cart_item :: "store \<Rightarrow> nat \<Rightarrow> request_body \<Rightarrow> response \<times> store" where
  "update_cart_item s item_id b =
     uncaught
       (case update_cart_item_try s item_id b of
          (Inr x, s') \<Rightarrow> (Inr x, s')
        | (Inl JSONDecodeError, s') \<Rightarrow> (JsonResponse False 400, s')
        | (Inl ValueError, s') \<Rightarrow> (JsonResponse False 400, s')
        | (Inl e, s') \<Rightarrow> (JsonResponse False 500, s'))"

definition remove_cart_item_try :: "store \<Rightarrow> nat \<Rightarrow> (error + response) \<times> store" where
  "remove_cart_item_try s item_id =
     (case CartItem_get s item_id of
        None \<Rightarrow> (Inl Http404, s)
      | Some cart_item \<Rightarrow>
          (let s1 = CartItem_delete s cart_item;
               s2 = cache_delete s1 (CartKey (cart cart_item))
           in (JsonResponse True 200, s2)))"

definition remove_cart_item :: "store \<Rightarrow> nat \<Rightarrow> response \<times> store" where
  "remove_cart_item s item_id =
     uncaught
       (case remove_cart_item_try s item_id of
          (Inr x, s') \<Rightarrow> (Inr x, s')
        | (Inl e, s') \<Rightarrow> (JsonResponse False 500, s'))"

definition clear_cart_try :: "store \<Rightarrow> request \<Rightarrow> (error + response) \<times> store" where
  "clear_cart_try s r =
     (case CartMixin_get_cart s r of
        Inl e \<Rightarrow> (Inl e, s)
      | Inr (c, s1) \<Rightarrow>
          (let s2 = QuerySet_delete s1 (cart_pk c);
               s3 = cache_delete s2 (CartKey (cart_pk c))
           in (JsonResponse True 200, s3)))"

definition clear_cart :: "store \<Rightarrow> request \<Rightarrow> response \<times> store" where
  "clear_cart s r =
     uncaught
       (case clear_cart_try s r of
          (Inr x, s') \<Rightarrow> (Inr x, s')
        | (Inl e, s') \<Rightarrow> (JsonResponse False 500, s'))"

section \<open>Sequences of cart operations\<close>

datatype operation =
    ApiAddItem nat nat nat int
  | ApiClear nat nat
  | ApiSummary nat nat
  | ApiUpdate nat nat bool "nat option" "int option"
  | ApiIncrement nat nat
  | ApiDecrement nat nat
  | WebAddToCart request nat request_body
  | WebUpdateCartItem nat request_body
  | WebRemoveCartItem nat
  | WebClearCart request

fun perform :: "store \<Rightarrow> operation \<Rightarrow> response \<times> store" where
  "perform s (ApiAddItem u k product_id qty) = CartViewSet_add_item s u k product_id qty"
| "perform s (ApiClear u k) = CartViewSet_clear s u k"
| "perform s (ApiSummary u k) = CartViewSet_summary s u k"
| "perform s (ApiUpdate u k partial product_id qty) =
     CartItemViewSet_update s u k partial product_id qty"
| "perform s (ApiIncrement u k) = CartItemViewSet_increment s u k"
| "perform s (ApiDecrement u k) = CartItemViewSet_decrement s u k"
| "perform s (WebAddToCart r product_id b) = add_to_cart s r product_id b"
| "perform s (WebUpdateCartItem item_id b) = update_cart_item s item_id b"
| "perform s (WebRemoveCartItem item_id) = remove_cart_item s item_id"
| "perform s (WebClearCart r) = clear_cart s r"

fun run :: "store \<Rightarrow> operation list \<Rightarrow> store" where
  "run s [] = s"
| "run s (x # xs) = run (snd (perform s x)) xs"

section \<open>Table constraints and concrete stores\<close>

text \<open>
  \<^verbatim>\<open>CartItem.Meta.unique_together = ('cart', 'product')\<close> is a constraint of the
  database: no two rows share a cart and a product. The range of the quantities is no
  constraint of the table (a \<^verbatim>\<open>PositiveIntegerField\<close> takes any number from 0 on); it is
  the invariant the views are to keep.
\<close>

definition unique_together :: "store \<Rightarrow> bool" where
  "unique_together s = distinct (map (\<lambda>i. (cart i, product i)) (cart_items s))"

text \<open>
  The primary key of the cart item table: no two rows share \<^verbatim>\<open>id\<close>, and the sequence
  that hands out new keys is ahead of every key in the table.
\<close>

definition primary_key :: "store \<Rightarrow> bool" where
  "primary_key s =
     (distinct (map pk (cart_items s)) \<and> list_all (\<lambda>i. pk i < next_item_pk s) (cart_items s))"

text \<open>The database part of the store: everything but the cache.\<close>

definition database :: "store \<Rightarrow> (nat \<rightharpoonup> Product) \<times> Cart list \<times> CartItem list \<times> nat \<times> nat" where
  "database s = (products s, carts s, cart_items s, next_cart_pk s, next_item_pk s)"

definition quantity_in_range :: "CartItem \<Rightarrow> bool" where
  "quantity_in_range i = (1 \<le> quantity i \<and> quantity i \<le> 99)"

definition quantities_in_range :: "store \<Rightarrow> bool" where
  "quantities_in_range s = list_all quantity_in_range (cart_items s)"

text \<open>
  A shop with an available product 1 at 100.00, an unavailable product 2 at 5.00, the
  cart 1 of user 1, and the given rows in the cart item table.
\<close>

definition shop :: "CartItem list \<Rightarrow> store" where
  "shop rows =
     \<lparr>products = [1 \<mapsto> \<lparr>price = 10000, available = True\<rparr>,
                   2 \<mapsto> \<lparr>price = 500, available = False\<rparr>],
      carts = [\<lparr>cart_pk = 1, user = Some 1, session_key = None\<rparr>],
      cart_items = rows,
      cache = Map.empty,
      next_cart_pk = 2,
      next_item_pk = 10\<rparr>"

definition row :: "int \<Rightarrow> CartItem" where
  "row q = \<lparr>pk = 1, cart = 1, product = 1, quantity = q\<rparr>"

definition visitor :: request where
  "visitor = \<lparr>auth_user = Some 1, session = None, new_session = ''k''\<rparr>"

section \<open>Properties\<close>

subsection \<open>What the model and cache operations leave alone\<close>

lemma cart_items_cache_delete [simp]: "cart_items (cache_delete s k) = cart_items s"
  and products_cache_delete [simp]: "products (cache_delete s k) = products s"
  and carts_cache_delete [simp]: "carts (cache_delete s k) = carts s"
  and cache_cache_delete [simp]: "cache (cache_delete s k) = (cache s)(k := None)"
  by (simp_all add: cache_delete_def)

lemma cart_items_cache_set [simp]: "cart_items (cache_set s k v) = cart_items s"
  and products_cache_set [simp]: "products (cache_set s k v) = products s"
  and carts_cache_set [simp]: "carts (cache_set s k v) = carts s"
  and cache_cache_set [simp]: "cache (cache_set s k v) = (cache s)(k \<mapsto> v)"
  by (simp_all add: cache_set_def)

lemma cart_items_clear_cache [simp]: "cart_items (Cart_clear_cache s c) = cart_items s"
  and products_clear_cache [simp]: "products (Cart_clear_cache s c) = products s"
  and carts_clear_cache [simp]: "carts (Cart_clear_cache s c) = carts s"
  and cache_clear_cache [simp]:
    "cache (Cart_clear_cache s c) = (cache s)(CartTotalKey c := None, CartItemsKey c := None)"
  by (simp_all add: Cart_clear_cache_def)

lemma cart_items_save [simp]:
  "cart_items (CartItem_save s i) = map (\<lambda>j. if pk j = pk i then i else j) (cart_items s)"
  and products_save [simp]: "products (CartItem_save s i) = products s"
  and carts_save [simp]: "carts (CartItem_save s i) = carts s"
  by (simp_all add: CartItem_save_def)

lemma cart_items_delete [simp]:
  "cart_items (CartItem_delete s i) = filter (\<lambda>j. pk j \<noteq> pk i) (cart_items s)"
  and products_delete [simp]: "products (CartItem_delete s i) = products s"
  and carts_delete [simp]: "carts (CartItem_delete s i) = carts s"
  by (simp_all add: CartItem_delete_def)

subsection \<open>Fetching a cart item before and after a write\<close>

lemma find_filter_SomeD:
  "find P (filter Q xs) = Some x \<Longrightarrow> P x \<and> Q x \<and> x \<in> set xs"
  by (induction xs) (auto split: if_splits)

lemma find_filter_map_replace:
  assumes "find (\<lambda>j. pk j = k) (filter Q xs) = Some i" and "Q i'" and "pk i' = k"
  shows "find (\<lambda>j. pk j = k) (filter Q (map (\<lambda>j. if pk j = k then i' else j) xs)) = Some i'"
  using assms by (induction xs) (auto split: if_splits)

lemma get_object_item_SomeD:
  "CartItemViewSet_get_object s u k = Some i \<Longrightarrow> pk i = k \<and> i \<in> set (cart_items s)"
  unfolding CartItemViewSet_get_object_def CartItemViewSet_get_queryset_def
  by (drule find_filter_SomeD) simp

lemma get_object_after_save:
  assumes "CartItemViewSet_get_object s u k = Some i"
  shows "CartItemViewSet_get_object (CartItem_save s (i\<lparr>quantity := q\<rparr>)) u k
           = Some (i\<lparr>quantity := q\<rparr>)"
proof -
  let ?Q = "\<lambda>i. list_ex (\<lambda>c. cart_pk c = cart i \<and> user c = Some u) (carts s)"
  from assms have f: "find (\<lambda>j. pk j = k) (filter ?Q (cart_items s)) = Some i"
    by (simp add: CartItemViewSet_get_object_def CartItemViewSet_get_queryset_def)
  from find_filter_SomeD[OF f] have "pk i = k" "?Q i" by simp_all
  then have "find (\<lambda>j. pk j = k)
      (filter ?Q (map (\<lambda>j. if pk j = k then i\<lparr>quantity := q\<rparr> else j) (cart_items s)))
      = Some (i\<lparr>quantity := q\<rparr>)"
    using find_filter_map_replace[OF f, of "i\<lparr>quantity := q\<rparr>"] by simp
  with \<open>pk i = k\<close> show ?thesis
    by (simp add: CartItemViewSet_get_object_def CartItemViewSet_get_queryset_def)
qed

lemma get_object_after_delete:
  "CartItemViewSet_get_object (CartItem_delete s i) u (pk i) = None"
  by (simp add: CartItemViewSet_get_object_def CartItemViewSet_get_queryset_def find_None_iff)

subsection \<open>Increment\<close>

lemma increment_result:
  assumes "CartItemViewSet_get_object s u k = Some i" and "products s (product i) = Some p"
  shows "CartItemViewSet_increment s u k =
           (\<lparr>status = 200,
             data = CartItemData (i\<lparr>quantity := min (quantity i + 1) 99\<rparr>)
                      (min (quantity i + 1) 99 * price p)\<rparr>,
            CartItem_save s (i\<lparr>quantity := min (quantity i + 1) 99\<rparr>))"
  using assms
  by (simp add: CartItemViewSet_increment_def Let_def CartItemSerializer_data_def
        CartItem_total_price_def min_def)

lemma increments_quantity:
  assumes "CartItemViewSet_get_object s u k = Some i" and "products s (product i) = Some p"
  shows "CartItemViewSet_get_object (run s (replicate (Suc n) (ApiIncrement u k))) u k
           = Some (i\<lparr>quantity := min (quantity i + 1 + int n) 99\<rparr>)"
  using assms
proof (induction n arbitrary: s i)
  case 0
  then show ?case by (simp add: increment_result get_object_after_save)
next
  case (Suc n)
  let ?i = "i\<lparr>quantity := min (quantity i + 1) 99\<rparr>"
  let ?s = "CartItem_save s ?i"
  have g: "CartItemViewSet_get_object ?s u k = Some ?i"
    using Suc.prems(1) by (rule get_object_after_save)
  have p: "products ?s (product ?i) = Some p" using Suc.prems(2) by simp
  have "run s (replicate (Suc (Suc n)) (ApiIncrement u k))
          = run ?s (replicate (Suc n) (ApiIncrement u k))"
    using Suc.prems by (simp add: increment_result)
  then show ?case using Suc.IH[OF g p] by (simp add: min_def)
qed

text \<open>
  Claim C6. Increment: for every cart item that the request reaches, increment stores
  \<open>min (quantity + 1) 99\<close> and answers 200 with the updated item; there is no
  upper-bound error, and no row is added or removed. Starting from quantity 95, ten
  increments in a row leave the quantity at 99.
\<close>

theorem increment_contract:
  assumes "CartItemViewSet_get_object s u k = Some i" and "products s (product i) = Some p"
  shows "fst (CartItemViewSet_increment s u k) =
           \<lparr>status = 200,
            data = CartItemData (i\<lparr>quantity := min (quantity i + 1) 99\<rparr>)
                     (min (quantity i + 1) 99 * price p)\<rparr>
       \<and> CartItemViewSet_get_object (snd (CartItemViewSet_increment s u k)) u k
           = Some (i\<lparr>quantity := min (quantity i + 1) 99\<rparr>)
       \<and> length (cart_items (snd (CartItemViewSet_increment s u k))) = length (cart_items s)
       \<and> (quantity i = 95 \<longrightarrow>
            CartItemViewSet_get_object (run s (replicate 10 (ApiIncrement u k))) u k
              = Some (i\<lparr>quantity := 99\<rparr>))"
proof -
  have e: "Suc 9 = 10" by simp
  have "CartItemViewSet_get_object (run s (replicate (Suc 9) (ApiIncrement u k))) u k
          = Some (i\<lparr>quantity := min (quantity i + 1 + int 9) 99\<rparr>)"
    using assms by (rule increments_quantity)
  then have ten: "CartItemViewSet_get_object (run s (replicate 10 (ApiIncrement u k))) u k
          = Some (i\<lparr>quantity := min (quantity i + 1 + int 9) 99\<rparr>)"
    unfolding e .
  have m: "quantity i = 95 \<Longrightarrow> min (quantity i + 1 + int 9) 99 = 99" by simp
  have one: "CartItemViewSet_increment s u k =
           (\<lparr>status = 200,
             data = CartItemData (i\<lparr>quantity := min (quantity i + 1) 99\<rparr>)
                      (min (quantity i + 1) 99 * price p)\<rparr>,
            CartItem_save s (i\<lparr>quantity := min (quantity i + 1) 99\<rparr>))"
    using assms by (rule increment_result)
  show ?thesis
    unfolding one ten using assms(1) m
    by (simp add: get_object_after_save)
qed

theorem increment_contract_witness:
  "CartItemViewSet_get_object (shop [row 95]) 1 1 = Some (row 95)
   \<and> products (shop [row 95]) (product (row 95)) = Some \<lparr>price = 10000, available = True\<rparr>
   \<and> fst (CartItemViewSet_increment (shop [row 95]) 1 1) =
        \<lparr>status = 200, data = CartItemData (row 96) 960000\<rparr>
   \<and> CartItemViewSet_get_object (snd (CartItemViewSet_increment (shop [row 95]) 1 1)) 1 1
        = Some (row 96)
   \<and> CartItemViewSet_get_object (run (shop [row 95]) (replicate 10 (ApiIncrement 1 1))) 1 1
        = Some (row 99)"
proof -
  have g: "CartItemViewSet_get_object (shop [row 95]) 1 1 = Some (row 95)"
    by (simp add: CartItemViewSet_get_object_def CartItemViewSet_get_queryset_def shop_def row_def)
  have p: "products (shop [row 95]) (product (row 95)) = Some \<lparr>price = 10000, available = True\<rparr>"
    by (simp add: shop_def row_def)
  have q: "quantity (row 95) = 95" by (simp add: row_def)
  have r: "(row 95)\<lparr>quantity := min (quantity (row 95) + 1) 99\<rparr> = row 96"
      "(row 95)\<lparr>quantity := 99\<rparr> = row 99" "min (quantity (row 95) + 1) 99 * 10000 = 960000"
    by (simp_all add: row_def)
  from increment_contract[OF g p] q show ?thesis
    unfolding r using g p by simp
qed

subsection \<open>Decrement\<close>

text \<open>
  Claim C5. Decrement: for every cart item that the request reaches, decrement takes one
  off the quantity. When the result is below 1 the row is deleted (no row with that key is
  left, none with quantity 0) and the answer is the removal message; otherwise the new
  quantity is stored and the answer is the updated item, which is a different payload.
\<close>

theorem decrement_contract:
  assumes "CartItemViewSet_get_object s u k = Some i" and "products s (product i) = Some p"
  shows "(quantity i - 1 < 1 \<longrightarrow>
            fst (CartItemViewSet_decrement s u k) = \<lparr>status = 200, data = RemovedMessage\<rparr>
          \<and> cart_items (snd (CartItemViewSet_decrement s u k))
              = filter (\<lambda>j. pk j \<noteq> k) (cart_items s)
          \<and> CartItemViewSet_get_object (snd (CartItemViewSet_decrement s u k)) u k = None)
       \<and> (\<not> quantity i - 1 < 1 \<longrightarrow>
            fst (CartItemViewSet_decrement s u k) =
              \<lparr>status = 200,
               data = CartItemData (i\<lparr>quantity := quantity i - 1\<rparr>)
                        ((quantity i - 1) * price p)\<rparr>
          \<and> CartItemViewSet_get_object (snd (CartItemViewSet_decrement s u k)) u k
              = Some (i\<lparr>quantity := quantity i - 1\<rparr>)
          \<and> length (cart_items (snd (CartItemViewSet_decrement s u k)))
              = length (cart_items s))"
proof -
  have k: "pk i = k" using assms(1) by (simp add: get_object_item_SomeD)
  have gone: "CartItemViewSet_get_object
                (CartItem_delete s (i\<lparr>quantity := quantity i - 1\<rparr>)) u k = None"
    using get_object_after_delete[of s "i\<lparr>quantity := quantity i - 1\<rparr>" u] k by simp
  show ?thesis
    using assms k gone
    by (simp add: CartItemViewSet_decrement_def Let_def CartItemSerializer_data_def
          CartItem_total_price_def get_object_after_save)
qed

theorem decrement_contract_witness:
  "CartItemViewSet_get_object (shop [row 1]) 1 1 = Some (row 1)
   \<and> products (shop [row 1]) (product (row 1)) = Some \<lparr>price = 10000, available = True\<rparr>
   \<and> fst (CartItemViewSet_decrement (shop [row 1]) 1 1) = \<lparr>status = 200, data = RemovedMessage\<rparr>
   \<and> cart_items (snd (CartItemViewSet_decrement (shop [row 1]) 1 1)) = []
   \<and> CartItemViewSet_get_object (shop [row 2]) 1 1 = Some (row 2)
   \<and> fst (CartItemViewSet_decrement (shop [row 2]) 1 1) =
        \<lparr>status = 200, data = CartItemData (row 1) 10000\<rparr>
   \<and> CartItemViewSet_get_object (snd (CartItemViewSet_decrement (shop [row 2]) 1 1)) 1 1
        = Some (row 1)"
proof -
  have g1: "CartItemViewSet_get_object (shop [row 1]) 1 1 = Some (row 1)"
    by (simp add: CartItemViewSet_get_object_def CartItemViewSet_get_queryset_def shop_def row_def)
  have p1: "products (shop [row 1]) (product (row 1)) = Some \<lparr>price = 10000, available = True\<rparr>"
    by (simp add: shop_def row_def)
  have g2: "CartItemViewSet_get_object (shop [row 2]) 1 1 = Some (row 2)"
    by (simp add: CartItemViewSet_get_object_def CartItemViewSet_get_queryset_def shop_def row_def)
  have p2: "products (shop [row 2]) (product (row 2)) = Some \<lparr>price = 10000, available = True\<rparr>"
    by (simp add: shop_def row_def)
  have q: "quantity (row 1) - 1 < 1" "\<not> quantity (row 2) - 1 < 1"
      "(row 2)\<lparr>quantity := quantity (row 2) - 1\<rparr> = row 1"
      "cart_items (shop [row 1]) = [row 1]" "pk (row 1) = 1"
    by (simp_all add: row_def shop_def)
  from decrement_contract[OF g1 p1] decrement_contract[OF g2 p2] q g1 p1 g2
  show ?thesis by (simp add: row_def)
qed


subsection \<open>Reads leave the tables alone\<close>

lemma tables_total_items [simp]:
  "cart_items (snd (Cart_total_items s c)) = cart_items s"
  "products (snd (Cart_total_items s c)) = products s"
  "carts (snd (Cart_total_items s c)) = carts s"
  by (simp_all add: Cart_total_items_def cache_get_def Let_def split: option.splits)

lemma tables_total_price:
  assumes "Cart_total_price s c = Some (t, s')"
  shows "cart_items s' = cart_items s \<and> products s' = products s \<and> carts s' = carts s"
  using assms
  by (auto simp: Cart_total_price_def cache_get_def Let_def split: option.splits)

lemma tables_CartSerializer_data:
  assumes "CartSerializer_data s c = Some (d, s')"
  shows "cart_items s' = cart_items s \<and> products s' = products s \<and> carts s' = carts s"
proof -
  obtain n s1 where a: "Cart_total_items s (cart_pk c) = (n, s1)"
    by (cases "Cart_total_items s (cart_pk c)")
  then have s1: "s1 = snd (Cart_total_items s (cart_pk c))" by simp
  from assms a obtain t where "Cart_total_price s1 (cart_pk c) = Some (t, s')"
    by (auto simp: CartSerializer_data_def split: option.splits)
  from tables_total_price[OF this] show ?thesis by (simp add: s1)
qed

lemma tables_QuerySet_delete [simp]:
  "cart_items (QuerySet_delete s c) = filter (\<lambda>i. cart i \<noteq> c) (cart_items s)"
  "products (QuerySet_delete s c) = products s"
  "carts (QuerySet_delete s c) = carts s"
  "cache (QuerySet_delete s c) = cache s"
  by (simp_all add: QuerySet_delete_def)

subsection \<open>The quantity range is kept by every write\<close>

lemma in_range_save:
  "quantities_in_range s \<Longrightarrow> quantity_in_range i \<Longrightarrow> quantities_in_range (CartItem_save s i)"
  by (auto simp: quantities_in_range_def list_all_iff)

lemma in_range_delete:
  "quantities_in_range s \<Longrightarrow> quantities_in_range (CartItem_delete s i)"
  by (simp add: quantities_in_range_def list_all_iff)

lemma in_range_QuerySet_delete:
  "quantities_in_range s \<Longrightarrow> quantities_in_range (QuerySet_delete s c)"
  by (simp add: quantities_in_range_def list_all_iff)

lemma in_range_member:
  "quantities_in_range s \<Longrightarrow> i \<in> set (cart_items s) \<Longrightarrow> 1 \<le> quantity i \<and> quantity i \<le> 99"
  by (simp add: quantities_in_range_def quantity_in_range_def list_all_iff)

lemma filter_singleton_member: "filter P xs = [x] \<Longrightarrow> x \<in> set xs"
  by (metis filter_is_subset list.set_intros(1) subsetD)

lemma get_or_create_cases:
  assumes "CartItem_get_or_create s c p q = Inr (i, created, s')"
  shows "(created \<and> (i, s') = CartItem_objects_create s c p q
            \<and> filter (\<lambda>i. cart i = c \<and> product i = p) (cart_items s) = [])
       \<or> (\<not> created \<and> s' = s
            \<and> filter (\<lambda>i. cart i = c \<and> product i = p) (cart_items s) = [i])"
  using assms
  by (auto simp: CartItem_get_or_create_def split: list.splits prod.splits)

lemma cart_items_objects_create:
  "cart_items (snd (CartItem_objects_create s c p q))
     = cart_items s @ [\<lparr>pk = next_item_pk s, cart = c, product = p, quantity = q\<rparr>]"
  "products (snd (CartItem_objects_create s c p q)) = products s"
  "carts (snd (CartItem_objects_create s c p q)) = carts s"
  by (simp_all add: CartItem_objects_create_def Let_def)

text \<open>The merge step that both add views share.\<close>

lemma in_range_add_merge:
  assumes inv: "quantities_in_range s"
    and q: "1 \<le> q" "q \<le> 99"
    and g: "CartItem_get_or_create s c p q = Inr (i, created, s')"
  shows "quantities_in_range
           (if \<not> created then
              (let n = quantity i + q; n' = (if n > 99 then 99 else n)
               in CartItem_save s' (i\<lparr>quantity := n'\<rparr>))
            else s')"
proof -
  from get_or_create_cases[OF g] show ?thesis
  proof
    assume a: "created \<and> (i, s') = CartItem_objects_create s c p q
            \<and> filter (\<lambda>i. cart i = c \<and> product i = p) (cart_items s) = []"
    then have "s' = snd (CartItem_objects_create s c p q)" by (metis snd_conv)
    then have "cart_items s' = cart_items s @ [\<lparr>pk = next_item_pk s, cart = c, product = p, quantity = q\<rparr>]"
      by (simp add: cart_items_objects_create)
    with inv q a show ?thesis
      by (simp add: quantities_in_range_def quantity_in_range_def)
  next
    assume a: "\<not> created \<and> s' = s
            \<and> filter (\<lambda>i. cart i = c \<and> product i = p) (cart_items s) = [i]"
    then have "i \<in> set (cart_items s)" by (blast intro: filter_singleton_member)
    with inv have "1 \<le> quantity i" by (simp add: in_range_member)
    with a inv q show ?thesis
      by (auto simp: Let_def quantity_in_range_def intro!: in_range_save)
  qed
qed

lemma in_range_CartSerializer_tail:
  assumes "quantities_in_range s2"
  shows "quantities_in_range
           (snd (case CartSerializer_data s2 c of
                   None \<Rightarrow> (r, s2)
                 | Some (d, s3) \<Rightarrow> (f d, s3)))"
proof (cases "CartSerializer_data s2 c")
  case None
  with assms show ?thesis by simp
next
  case (Some x)
  obtain d s3 where x: "x = (d, s3)" by (cases x)
  from tables_CartSerializer_data[OF Some[unfolded x]]
  have "quantities_in_range s3 = quantities_in_range s2" by (simp add: quantities_in_range_def)
  with assms show ?thesis by (simp add: Some x)
qed

lemma validate_create_quantity:
  "CartItemCreateSerializer_validate_quantity qty = Inr qv \<Longrightarrow> qv = qty \<and> 1 \<le> qty \<and> qty \<le> 99"
  by (auto simp: CartItemCreateSerializer_validate_quantity_def split: if_splits)

lemma validate_quantity:
  "CartItemSerializer_validate_quantity qty = Inr qv \<Longrightarrow> qv = qty \<and> 1 \<le> qty \<and> qty \<le> 99"
  by (auto simp: CartItemSerializer_validate_quantity_def split: if_splits)


subsection \<open>The REST add action and the storefront views, as they run\<close>

text \<open>
  The REST add action never writes: it ends at the missing key of the validated data, at
  the validation, or at the missing cart.
\<close>

lemma CartViewSet_add_item_result:
  "CartViewSet_add_item s u k pid q =
     (case CartViewSet_get_object s u k of
        None \<Rightarrow> (\<lparr>status = 404, data = Detail\<rparr>, s)
      | Some c \<Rightarrow>
          if q < 1 \<or> 99 < q then (\<lparr>status = 400, data = SerializerErrors\<rparr>, s)
          else (\<lparr>status = 500, data = Detail\<rparr>, s))"
  by (auto simp: CartViewSet_add_item_def CartItemCreateSerializer_is_valid_def
        CartItemCreateSerializer_validate_quantity_def split: option.splits)

lemma CartViewSet_add_item_store [simp]: "snd (CartViewSet_add_item s u k pid q) = s"
  by (simp add: CartViewSet_add_item_result split: option.splits)

text \<open>
  No storefront view gets to answer: the body of its \<^verbatim>\<open>try\<close> ends in an exception, the
  handler that takes it raises \<^verbatim>\<open>NameError\<close>, and the answer is the framework's 500.
  The store is the one the body left.
\<close>

lemma uncaught_Inl [simp]: "uncaught (Inl e, s) = (\<lparr>status = 500, data = Detail\<rparr>, s)"
  by (simp add: uncaught_def)

lemma add_to_cart_try_raises: "\<exists>e. fst (add_to_cart_try s r pid b) = Inl e"
  by (auto simp: add_to_cart_try_def JsonResponse_def Let_def
        split: request_body.splits option.splits sum.splits prod.splits)

lemma update_cart_item_try_raises: "\<exists>e. fst (update_cart_item_try s k b) = Inl e"
  by (auto simp: update_cart_item_try_def JsonResponse_def Let_def
        split: request_body.splits option.splits)

lemma remove_cart_item_try_raises: "\<exists>e. fst (remove_cart_item_try s k) = Inl e"
  by (auto simp: remove_cart_item_try_def JsonResponse_def Let_def split: option.splits)

lemma clear_cart_try_raises: "\<exists>e. fst (clear_cart_try s r) = Inl e"
  by (auto simp: clear_cart_try_def JsonResponse_def Let_def split: sum.splits prod.splits)

lemma add_to_cart_result:
  "add_to_cart s r pid b = (\<lparr>status = 500, data = Detail\<rparr>, snd (add_to_cart_try s r pid b))"
proof -
  obtain e s' where t: "add_to_cart_try s r pid b = (Inl e, s')"
    using add_to_cart_try_raises[of s r pid b] by (cases "add_to_cart_try s r pid b") auto
  show ?thesis
    by (cases e) (simp_all add: add_to_cart_def JsonResponse_def t)
qed

lemma update_cart_item_result:
  "update_cart_item s k b
     = (\<lparr>status = 500, data = Detail\<rparr>, snd (update_cart_item_try s k b))"
proof -
  obtain e s' where t: "update_cart_item_try s k b = (Inl e, s')"
    using update_cart_item_try_raises[of s k b] by (cases "update_cart_item_try s k b") auto
  show ?thesis
    by (cases e) (simp_all add: update_cart_item_def JsonResponse_def t)
qed

lemma remove_cart_item_result:
  "remove_cart_item s k = (\<lparr>status = 500, data = Detail\<rparr>, snd (remove_cart_item_try s k))"
proof -
  obtain e s' where t: "remove_cart_item_try s k = (Inl e, s')"
    using remove_cart_item_try_raises[of s k] by (cases "remove_cart_item_try s k") auto
  show ?thesis
    by (simp add: remove_cart_item_def JsonResponse_def t)
qed

lemma clear_cart_result:
  "clear_cart s r = (\<lparr>status = 500, data = Detail\<rparr>, snd (clear_cart_try s r))"
proof -
  obtain e s' where t: "clear_cart_try s r = (Inl e, s')"
    using clear_cart_try_raises[of s r] by (cases "clear_cart_try s r") auto
  show ?thesis
    by (simp add: clear_cart_def JsonResponse_def t)
qed

subsection \<open>Every view keeps the quantity range\<close>

lemma in_range_add_item:
  "quantities_in_range s \<Longrightarrow> quantities_in_range (snd (CartViewSet_add_item s u k pid q))"
  by simp

lemma in_range_clear:
  assumes "quantities_in_range s"
  shows "quantities_in_range (snd (CartViewSet_clear s u k))"
proof (cases "CartViewSet_get_object s u k")
  case None
  with assms show ?thesis by (simp add: CartViewSet_clear_def)
next
  case (Some c)
  have "CartViewSet_clear s u k =
          (case CartSerializer_data (QuerySet_delete s (cart_pk c)) c of
             None \<Rightarrow> (\<lparr>status = 500, data = Detail\<rparr>, QuerySet_delete s (cart_pk c))
           | Some (d, s3) \<Rightarrow> (\<lparr>status = 200, data = d\<rparr>, s3))"
    by (simp add: CartViewSet_clear_def Some Let_def)
  then show ?thesis
    by (simp only: in_range_CartSerializer_tail[OF in_range_QuerySet_delete[OF assms]])
qed

lemma in_range_summary:
  assumes "quantities_in_range s"
  shows "quantities_in_range (snd (CartViewSet_summary s u k))"
proof (cases "CartViewSet_get_object s u k")
  case None
  with assms show ?thesis by (simp add: CartViewSet_summary_def)
next
  case (Some c)
  obtain n s1 where a: "Cart_total_items s (cart_pk c) = (n, s1)"
    by (cases "Cart_total_items s (cart_pk c)")
  then have s1: "cart_items s1 = cart_items s"
    using tables_total_items(1)[of s "cart_pk c"] by simp
  show ?thesis
  proof (cases "Cart_total_price s1 (cart_pk c)")
    case None
    with assms Some a s1 show ?thesis
      by (simp add: CartViewSet_summary_def quantities_in_range_def)
  next
    case (Some x)
    obtain t s2 where x: "x = (t, s2)" by (cases x)
    from tables_total_price[OF Some[unfolded x]] s1 have "cart_items s2 = cart_items s" by simp
    with assms \<open>CartViewSet_get_object s u k = Some c\<close> a Some x show ?thesis
      by (simp add: CartViewSet_summary_def quantities_in_range_def)
  qed
qed

lemma in_range_perform_update:
  assumes "quantities_in_range s"
    and "case validated of Some q \<Rightarrow> 1 \<le> q \<and> q \<le> 99 | None \<Rightarrow> quantity_in_range instance"
  shows "quantities_in_range (snd (CartItemViewSet_perform_update s instance validated))"
  using assms
  by (auto simp: CartItemViewSet_perform_update_def Let_def quantity_in_range_def
        intro!: in_range_save in_range_delete split: option.splits)

lemma is_valid_in_range:
  "CartItemSerializer_is_valid partial sent_product_id sent = Inr validated \<Longrightarrow>
     validated = sent \<and> (case sent of Some q \<Rightarrow> 1 \<le> q \<and> q \<le> 99 | None \<Rightarrow> True)"
  by (auto simp: CartItemSerializer_is_valid_def split: option.splits sum.splits if_splits
        dest: validate_quantity)

lemma in_range_update:
  assumes "quantities_in_range s"
  shows "quantities_in_range (snd (CartItemViewSet_update s u k partial sent_product_id sent))"
proof (cases "CartItemViewSet_get_object s u k")
  case None
  with assms show ?thesis by (simp add: CartItemViewSet_update_def)
next
  case (Some inst)
  then have "inst \<in> set (cart_items s)" by (simp add: get_object_item_SomeD)
  with assms have r: "quantity_in_range inst"
    by (simp add: quantities_in_range_def list_all_iff)
  show ?thesis
  proof (cases "CartItemSerializer_is_valid partial sent_product_id sent")
    case (Inl e)
    with assms Some show ?thesis by (simp add: CartItemViewSet_update_def)
  next
    case (Inr validated)
    from is_valid_in_range[OF Inr] r
    have "case validated of Some q \<Rightarrow> 1 \<le> q \<and> q \<le> 99 | None \<Rightarrow> quantity_in_range inst"
      by (auto split: option.splits)
    from in_range_perform_update[OF assms this] Some Inr show ?thesis
      by (auto simp: CartItemViewSet_update_def split: prod.splits option.splits)
  qed
qed

lemma in_range_increment:
  assumes "quantities_in_range s"
  shows "quantities_in_range (snd (CartItemViewSet_increment s u k))"
proof (cases "CartItemViewSet_get_object s u k")
  case None
  with assms show ?thesis by (simp add: CartItemViewSet_increment_def)
next
  case (Some i)
  then have "i \<in> set (cart_items s)" by (simp add: get_object_item_SomeD)
  with assms have "1 \<le> quantity i" by (simp add: in_range_member)
  then have "quantity_in_range (i\<lparr>quantity := if quantity i + 1 > 99 then 99 else quantity i + 1\<rparr>)"
    by (simp add: quantity_in_range_def)
  from in_range_save[OF assms this] Some show ?thesis
    by (auto simp: CartItemViewSet_increment_def Let_def split: option.splits)
qed

lemma in_range_decrement:
  assumes "quantities_in_range s"
  shows "quantities_in_range (snd (CartItemViewSet_decrement s u k))"
proof (cases "CartItemViewSet_get_object s u k")
  case None
  with assms show ?thesis by (simp add: CartItemViewSet_decrement_def)
next
  case (Some i)
  then have "i \<in> set (cart_items s)" by (simp add: get_object_item_SomeD)
  with assms have "quantity i \<le> 99" by (simp add: in_range_member)
  then have "\<not> quantity i - 1 < 1 \<Longrightarrow> quantity_in_range (i\<lparr>quantity := quantity i - 1\<rparr>)"
    by (simp add: quantity_in_range_def)
  with assms Some show ?thesis
    by (auto simp: CartItemViewSet_decrement_def Let_def
          intro!: in_range_save in_range_delete split: option.splits)
qed

lemma tables_Cart_objects_create [simp]:
  "cart_items (snd (Cart_objects_create s u k)) = cart_items s"
  "products (snd (Cart_objects_create s u k)) = products s"
  "cache (snd (Cart_objects_create s u k)) = cache s"
  by (simp_all add: Cart_objects_create_def Let_def)

lemma tables_get_cart:
  assumes "CartMixin_get_cart s r = Inr (c, s1)"
  shows "cart_items s1 = cart_items s \<and> products s1 = products s \<and> cache s1 = cache s"
proof -
  have u: "\<And>u. Cart_get_or_create_user s u = Inr (c, s1) \<Longrightarrow> ?thesis"
    by (auto simp: Cart_get_or_create_user_def Cart_objects_create_def Let_def
          split: list.splits)
  have k: "\<And>k. Cart_get_or_create_session s k = Inr (c, s1) \<Longrightarrow> ?thesis"
    by (auto simp: Cart_get_or_create_session_def Cart_objects_create_def Let_def
          split: list.splits)
  from assms u k show ?thesis
    by (auto simp: CartMixin_get_cart_def Let_def split: option.splits)
qed

lemma in_range_add_to_cart_try:
  assumes "quantities_in_range s"
  shows "quantities_in_range (snd (add_to_cart_try s r product_id b))"
proof (cases b)
  case (Payload sent)
  define qty where "qty = (case sent of None \<Rightarrow> 1 | Some q \<Rightarrow> q)"
  show ?thesis
  proof (cases "qty < 1 \<or> qty > 99")
    case True
    with assms Payload show ?thesis by (auto simp: add_to_cart_try_def qty_def Let_def)
  next
    case False
    then have q: "1 \<le> qty" "qty \<le> 99" by simp_all
    show ?thesis
    proof (cases "Product_get_available s product_id")
      case None
      with assms Payload False show ?thesis by (simp add: add_to_cart_try_def qty_def Let_def)
    next
      case p: (Some p)
      show ?thesis
      proof (cases "CartMixin_get_cart s r")
        case (Inl e)
        with assms Payload False p show ?thesis
          by (simp add: add_to_cart_try_def qty_def Let_def)
      next
        case (Inr x)
        obtain c s1 where x: "x = (c, s1)" by (cases x)
        have gc: "CartMixin_get_cart s r = Inr (c, s1)" using Inr x by simp
        from tables_get_cart[OF gc] assms have inv1: "quantities_in_range s1"
          by (simp add: quantities_in_range_def)
        show ?thesis
        proof (cases "CartItem_get_or_create s1 (cart_pk c) product_id qty")
          case (Inl e)
          with inv1 Payload False p gc show ?thesis
            by (simp add: add_to_cart_try_def qty_def Let_def)
        next
          case (Inr y)
          obtain cart_item created s2 where y: "y = (cart_item, created, s2)" by (cases y)
          have g: "CartItem_get_or_create s1 (cart_pk c) product_id qty
                     = Inr (cart_item, created, s2)"
            using Inr y by simp
          let ?s3 = "if \<not> created then
                       (let n = quantity cart_item + qty; n' = (if n > 99 then 99 else n)
                        in CartItem_save s2 (cart_item\<lparr>quantity := n'\<rparr>))
                     else s2"
          have m: "quantities_in_range ?s3" by (rule in_range_add_merge[OF inv1 q g])
          have "cart_items (snd (add_to_cart_try s r product_id b)) = cart_items ?s3"
            using Payload False p gc g
            by (simp add: add_to_cart_try_def qty_def[symmetric] Let_def)
          with m show ?thesis by (simp only: quantities_in_range_def)
        qed
      qed
    qed
  qed
qed (use assms in \<open>simp_all add: add_to_cart_try_def JsonResponse_def\<close>)

lemma in_range_add_to_cart:
  "quantities_in_range s \<Longrightarrow> quantities_in_range (snd (add_to_cart s r product_id b))"
  by (simp add: add_to_cart_result in_range_add_to_cart_try)

lemma in_range_update_cart_item:
  assumes "quantities_in_range s"
  shows "quantities_in_range (snd (update_cart_item s item_id b))"
proof -
  have "quantities_in_range (snd (update_cart_item_try s item_id b))"
  proof (cases b)
    case (Payload sent)
    define qty where "qty = (case sent of None \<Rightarrow> 1 | Some q \<Rightarrow> q)"
    show ?thesis
    proof (cases "qty < 1 \<or> qty > 99")
      case True
      with assms Payload show ?thesis
        by (auto simp: update_cart_item_try_def qty_def Let_def)
    next
      case False
      show ?thesis
      proof (cases "CartItem_get s item_id")
        case None
        with assms Payload False show ?thesis
          by (simp add: update_cart_item_try_def qty_def Let_def)
      next
        case (Some cart_item)
        from False have "quantity_in_range (cart_item\<lparr>quantity := qty\<rparr>)"
          by (simp add: quantity_in_range_def)
        note m = in_range_save[OF assms this]
        have "cart_items (snd (update_cart_item_try s item_id b))
                = cart_items (CartItem_save s (cart_item\<lparr>quantity := qty\<rparr>))"
          using Payload False Some
          by (simp add: update_cart_item_try_def qty_def[symmetric] Let_def)
        with m show ?thesis by (simp only: quantities_in_range_def)
      qed
    qed
  qed (use assms in \<open>simp_all add: update_cart_item_try_def\<close>)
  then show ?thesis by (simp add: update_cart_item_result)
qed

lemma in_range_remove_cart_item:
  assumes "quantities_in_range s"
  shows "quantities_in_range (snd (remove_cart_item s item_id))"
  using assms
  by (auto simp: remove_cart_item_result remove_cart_item_try_def Let_def
        quantities_in_range_def list_all_iff split: option.splits)

lemma in_range_clear_cart:
  assumes "quantities_in_range s"
  shows "quantities_in_range (snd (clear_cart s r))"
proof (cases "CartMixin_get_cart s r")
  case (Inl e)
  with assms show ?thesis by (simp add: clear_cart_result clear_cart_try_def)
next
  case (Inr x)
  obtain c s1 where x: "x = (c, s1)" by (cases x)
  from tables_get_cart[OF Inr[unfolded x]] assms Inr x show ?thesis
    by (simp add: clear_cart_result clear_cart_try_def Let_def quantities_in_range_def
          list_all_iff)
qed

lemma in_range_perform:
  "quantities_in_range s \<Longrightarrow> quantities_in_range (snd (perform s x))"
  by (cases x)
     (simp_all add: in_range_add_item in_range_clear in_range_summary in_range_update
        in_range_increment in_range_decrement in_range_add_to_cart in_range_update_cart_item
        in_range_remove_cart_item in_range_clear_cart)

lemma in_range_run: "quantities_in_range s \<Longrightarrow> quantities_in_range (run s xs)"
  by (induction xs arbitrary: s) (simp_all add: in_range_perform)

subsection \<open>Unfolding the views on a concrete store\<close>

lemmas view_defs =
  CartViewSet_add_item_def CartViewSet_clear_def CartViewSet_summary_def
  CartItemViewSet_update_def CartItemViewSet_increment_def CartItemViewSet_decrement_def
  CartItemViewSet_perform_update_def CartItemSerializer_is_valid_def
  CartItemCreateSerializer_is_valid_def
  add_to_cart_def update_cart_item_def remove_cart_item_def clear_cart_def
  add_to_cart_try_def update_cart_item_try_def remove_cart_item_try_def clear_cart_try_def
  JsonResponse_def uncaught_def
  CartViewSet_get_object_def CartViewSet_get_queryset_def
  CartItemViewSet_get_object_def CartItemViewSet_get_queryset_def
  CartMixin_get_cart_def Cart_get_or_create_user_def Cart_get_or_create_session_def
  Cart_objects_create_def CartItem_get_or_create_def CartItem_objects_create_def
  CartItem_get_def Product_get_available_def
  CartItemSerializer_validate_quantity_def CartItemCreateSerializer_validate_quantity_def
  CartItemSerializer_data_def CartSerializer_data_def
  Cart_total_items_def Cart_total_price_def CartItem_total_price_def Cart_items_def
  Cart_clear_cache_def CartItem_save_def CartItem_delete_def QuerySet_delete_def
  cache_get_def cache_set_def cache_delete_def
  shop_def row_def visitor_def Let_def

subsection \<open>The quantity range over sequences of operations\<close>

text \<open>
  Claim C8. Quantity range invariant: started on a cart item table whose quantities are
  all between 1 and 99 (the empty table is one), every finite sequence of the cart
  operations of the REST and storefront views (add and merging add, increment, decrement,
  the direct quantity update, remove, clear, summary) leaves every stored quantity between
  1 and 99.
\<close>

theorem quantity_range_invariant:
  assumes "quantities_in_range s"
  shows "list_all (\<lambda>i. 1 \<le> quantity i \<and> quantity i \<le> 99) (cart_items (run s ops))"
  using in_range_run[OF assms, of ops]
  by (simp add: quantities_in_range_def quantity_in_range_def list_all_iff)

theorem quantity_range_invariant_witness:
  "quantities_in_range (shop [])
   \<and> cart_items (run (shop [])
        [WebAddToCart visitor 1 (Payload (Some 60)), ApiAddItem 1 1 1 60,
         WebAddToCart visitor 1 (Payload (Some 60)), ApiIncrement 1 10,
         ApiUpdate 1 10 True None (Some 150), WebUpdateCartItem 10 (Payload (Some 0)),
         ApiDecrement 1 10])
       = [\<lparr>pk = 10, cart = 1, product = 1, quantity = 98\<rparr>]
   \<and> list_all (\<lambda>i. 1 \<le> quantity i \<and> quantity i \<le> 99)
        (cart_items (run (shop [])
          [WebAddToCart visitor 1 (Payload (Some 60)), ApiAddItem 1 1 1 60,
           WebAddToCart visitor 1 (Payload (Some 60)), ApiIncrement 1 10,
           ApiUpdate 1 10 True None (Some 150), WebUpdateCartItem 10 (Payload (Some 0)),
           ApiDecrement 1 10]))"
proof -
  have h: "quantities_in_range (shop [])"
    by (simp add: quantities_in_range_def shop_def)
  have c: "cart_items (run (shop [])
        [WebAddToCart visitor 1 (Payload (Some 60)), ApiAddItem 1 1 1 60,
         WebAddToCart visitor 1 (Payload (Some 60)), ApiIncrement 1 10,
         ApiUpdate 1 10 True None (Some 150), WebUpdateCartItem 10 (Payload (Some 0)),
         ApiDecrement 1 10])
       = [\<lparr>pk = 10, cart = 1, product = 1, quantity = 98\<rparr>]"
    by (simp add: view_defs)
  from quantity_range_invariant[OF h] h c show ?thesis by blast
qed

subsection \<open>The update action of the REST view\<close>

lemma update_rejects:
  assumes "CartItemViewSet_get_object s u k = Some inst" and "v < 1 \<or> 99 < v"
  shows "CartItemSerializer_is_valid partial sent_product_id (Some v) = Inl ValidationError
       \<and> CartItemViewSet_update s u k partial sent_product_id (Some v)
           = (\<lparr>status = 400, data = SerializerErrors\<rparr>, s)"
  using assms
  by (auto simp: CartItemSerializer_is_valid_def CartItemSerializer_validate_quantity_def
        CartItemViewSet_update_def)

lemma perform_update_saves:
  assumes "quantities_in_range s"
    and "CartItemViewSet_get_object s u k = Some inst"
    and "CartItemSerializer_is_valid partial sent_product_id sent = Inr validated"
  shows "(let q = (case validated of Some v \<Rightarrow> v | None \<Rightarrow> quantity inst)
          in 1 \<le> q \<and> q \<le> 99
           \<and> CartItemViewSet_perform_update s inst validated
               = (inst\<lparr>quantity := q\<rparr>, CartItem_save s (inst\<lparr>quantity := q\<rparr>)))"
proof -
  from assms(2) have "inst \<in> set (cart_items s)"
    by (simp add: get_object_item_SomeD)
  with assms(1) have r: "1 \<le> quantity inst \<and> quantity inst \<le> 99"
    by (rule in_range_member)
  from is_valid_in_range[OF assms(3)] r show ?thesis
    by (auto simp: CartItemViewSet_perform_update_def Let_def split: option.splits)
qed



subsection \<open>The direct quantity update\<close>

lemma update_accepts:
  assumes "CartItemViewSet_get_object s u k = Some inst"
    and "products s (product inst) = Some p"
    and "partial \<or> sent_product_id \<noteq> None"
    and "1 \<le> q" "q \<le> 99"
  shows "CartItemViewSet_update s u k partial sent_product_id (Some q)
           = (\<lparr>status = 200, data = CartItemData (inst\<lparr>quantity := q\<rparr>) (q * price p)\<rparr>,
              CartItem_save s (inst\<lparr>quantity := q\<rparr>))"
  using assms
  by (auto simp: CartItemViewSet_update_def CartItemSerializer_is_valid_def
        CartItemSerializer_validate_quantity_def CartItemViewSet_perform_update_def Let_def
        CartItemSerializer_data_def CartItem_total_price_def)

lemma update_cart_item_rejects:
  assumes "q < 1 \<or> 99 < q"
  shows "snd (update_cart_item s k (Payload (Some q))) = s"
  using assms by (auto simp: update_cart_item_result update_cart_item_try_def)

lemma update_cart_item_accepts:
  assumes "CartItem_get s k = Some j" and "1 \<le> q" "q \<le> 99"
  shows "snd (update_cart_item s k (Payload (Some q)))
           = cache_delete (CartItem_save s (j\<lparr>quantity := q\<rparr>)) (CartKey (cart j))"
  using assms by (simp add: update_cart_item_result update_cart_item_try_def Let_def)

lemma CartItem_get_after_save:
  assumes "CartItem_get s k = Some j"
  shows "CartItem_get (CartItem_save s (j\<lparr>quantity := q\<rparr>)) k = Some (j\<lparr>quantity := q\<rparr>)"
proof -
  from assms have f: "find (\<lambda>i. pk i = k) (filter (\<lambda>_. True) (cart_items s)) = Some j"
    by (simp add: CartItem_get_def)
  from find_filter_SomeD[OF f] have k: "pk j = k" by simp
  from find_filter_map_replace[OF f, of "j\<lparr>quantity := q\<rparr>"] k show ?thesis
    by (simp add: CartItem_get_def)
qed

text \<open>
  Claim C2, as the code has it. Direct quantity update: for every cart item that the
  request reaches and every integer \<open>q\<close> that it sends, on the REST update and on the
  storefront update alike, a \<open>q\<close> between 1 and 99 is stored as it is, and a \<open>q\<close> below 1
  or above 99 leaves the store as it was: the item is not deleted, and no quantity above
  99 is stored. The REST update refuses such a \<open>q\<close> with a 400 response. The REST request
  is a PATCH, or a PUT that sends the product key.
\<close>

theorem set_quantity_contract:
  assumes "CartItemViewSet_get_object s u k = Some inst"
    and "products s (product inst) = Some p"
    and "partial \<or> sent_product_id \<noteq> None"
    and "CartItem_get s k' = Some j"
  shows "(1 \<le> q \<and> q \<le> 99 \<longrightarrow>
            CartItemViewSet_update s u k partial sent_product_id (Some q)
              = (\<lparr>status = 200, data = CartItemData (inst\<lparr>quantity := q\<rparr>) (q * price p)\<rparr>,
                 CartItem_save s (inst\<lparr>quantity := q\<rparr>))
          \<and> CartItemViewSet_get_object
                (snd (CartItemViewSet_update s u k partial sent_product_id (Some q))) u k
              = Some (inst\<lparr>quantity := q\<rparr>)
          \<and> snd (update_cart_item s k' (Payload (Some q)))
              = cache_delete (CartItem_save s (j\<lparr>quantity := q\<rparr>)) (CartKey (cart j))
          \<and> CartItem_get (snd (update_cart_item s k' (Payload (Some q)))) k'
              = Some (j\<lparr>quantity := q\<rparr>))
       \<and> (q < 1 \<or> 99 < q \<longrightarrow>
            CartItemViewSet_update s u k partial sent_product_id (Some q)
              = (\<lparr>status = 400, data = SerializerErrors\<rparr>, s)
          \<and> snd (update_cart_item s k' (Payload (Some q))) = s)"
proof (intro conjI impI)
  assume q: "1 \<le> q \<and> q \<le> 99"
  then have q1: "1 \<le> q" and q2: "q \<le> 99" by simp_all
  show a: "CartItemViewSet_update s u k partial sent_product_id (Some q)
              = (\<lparr>status = 200, data = CartItemData (inst\<lparr>quantity := q\<rparr>) (q * price p)\<rparr>,
                 CartItem_save s (inst\<lparr>quantity := q\<rparr>))"
    using assms(1,2,3) q1 q2 by (rule update_accepts)
  show "CartItemViewSet_get_object
          (snd (CartItemViewSet_update s u k partial sent_product_id (Some q))) u k
              = Some (inst\<lparr>quantity := q\<rparr>)"
    unfolding a using assms(1) by (simp add: get_object_after_save)
  show b: "snd (update_cart_item s k' (Payload (Some q)))
              = cache_delete (CartItem_save s (j\<lparr>quantity := q\<rparr>)) (CartKey (cart j))"
    using assms(4) q1 q2 by (rule update_cart_item_accepts)
  show "CartItem_get (snd (update_cart_item s k' (Payload (Some q)))) k'
              = Some (j\<lparr>quantity := q\<rparr>)"
    unfolding b using CartItem_get_after_save[OF assms(4), of q]
    by (simp add: CartItem_get_def)
next
  assume q: "q < 1 \<or> 99 < q"
  show "CartItemViewSet_update s u k partial sent_product_id (Some q)
          = (\<lparr>status = 400, data = SerializerErrors\<rparr>, s)"
    using update_rejects[OF assms(1) q] by simp
  show "snd (update_cart_item s k' (Payload (Some q))) = s"
    using q by (rule update_cart_item_rejects)
qed

theorem set_quantity_contract_witness:
  "CartItemViewSet_get_object (shop [row 5]) 1 1 = Some (row 5)
   \<and> products (shop [row 5]) (product (row 5)) = Some \<lparr>price = 10000, available = True\<rparr>
   \<and> CartItem_get (shop [row 5]) 1 = Some (row 5)
   \<and> CartItemViewSet_get_object
        (snd (CartItemViewSet_update (shop [row 5]) 1 1 True None (Some 7))) 1 1
       = Some (row 7)
   \<and> CartItem_get (snd (update_cart_item (shop [row 5]) 1 (Payload (Some 7)))) 1 = Some (row 7)
   \<and> CartItemViewSet_update (shop [row 5]) 1 1 True None (Some 150)
       = (\<lparr>status = 400, data = SerializerErrors\<rparr>, shop [row 5])
   \<and> snd (update_cart_item (shop [row 5]) 1 (Payload (Some 0))) = shop [row 5]"
proof -
  have g: "CartItemViewSet_get_object (shop [row 5]) 1 1 = Some (row 5)"
    by (simp add: CartItemViewSet_get_object_def CartItemViewSet_get_queryset_def shop_def row_def)
  have p: "products (shop [row 5]) (product (row 5)) = Some \<lparr>price = 10000, available = True\<rparr>"
    by (simp add: shop_def row_def)
  have w: "CartItem_get (shop [row 5]) 1 = Some (row 5)"
    by (simp add: CartItem_get_def shop_def row_def)
  have pt: "True \<or> (None :: nat option) \<noteq> None" by simp
  have r: "(row 5)\<lparr>quantity := 7\<rparr> = row 7" by (simp add: row_def)
  have q7: "(1::int) \<le> 7 \<and> (7::int) \<le> 99" and q150: "(150::int) < 1 \<or> 99 < (150::int)"
    and q0: "(0::int) < 1 \<or> 99 < (0::int)"
    by simp_all
  note t7 = set_quantity_contract[OF g p pt w, of 7, THEN conjunct1, THEN mp, OF q7, unfolded r]
  note t150 = set_quantity_contract[OF g p pt w, of 150, THEN conjunct2, THEN mp, OF q150]
  note t0 = set_quantity_contract[OF g p pt w, of 0, THEN conjunct2, THEN mp, OF q0]
  from t7 t150 t0 g p w show ?thesis by blast
qed

text \<open>
  The claim as the specification words it fails on both paths: a submitted 0 does not
  delete the item, and a submitted 150 is not stored.
\<close>

theorem set_quantity_counterexample:
  "cart_items (snd (CartItemViewSet_update (shop [row 5]) 1 1 True None (Some 0))) = [row 5]
   \<and> cart_items (snd (update_cart_item (shop [row 5]) 1 (Payload (Some 0)))) = [row 5]
   \<and> fst (CartItemViewSet_update (shop [row 5]) 1 1 True None (Some 150))
       = \<lparr>status = 400, data = SerializerErrors\<rparr>
   \<and> cart_items (snd (CartItemViewSet_update (shop [row 5]) 1 1 True None (Some 150))) = [row 5]
   \<and> cart_items (snd (update_cart_item (shop [row 5]) 1 (Payload (Some 150)))) = [row 5]"
  by (simp add: view_defs)

subsection \<open>The database part of the store\<close>

lemma database_eq_iff:
  "database s' = database s \<longleftrightarrow>
     products s' = products s \<and> carts s' = carts s \<and> cart_items s' = cart_items s
     \<and> next_cart_pk s' = next_cart_pk s \<and> next_item_pk s' = next_item_pk s"
  by (simp add: database_def)

lemma database_cache_ops [simp]:
  "database (cache_set s k v) = database s"
  "database (cache_delete s k) = database s"
  "database (Cart_clear_cache s c) = database s"
  by (simp_all add: database_def cache_set_def cache_delete_def Cart_clear_cache_def)

lemma database_total_items [simp]: "database (snd (Cart_total_items s c)) = database s"
  by (simp add: Cart_total_items_def cache_get_def Let_def split: option.splits)

lemma database_total_price:
  "Cart_total_price s c = Some (t, s') \<Longrightarrow> database s' = database s"
  by (auto simp: Cart_total_price_def cache_get_def Let_def split: option.splits)

lemma database_CartSerializer_data:
  assumes "CartSerializer_data s c = Some (d, s')"
  shows "database s' = database s"
proof -
  obtain n s1 where a: "Cart_total_items s (cart_pk c) = (n, s1)"
    by (cases "Cart_total_items s (cart_pk c)")
  then have s1: "s1 = snd (Cart_total_items s (cart_pk c))" by simp
  from assms a obtain t where "Cart_total_price s1 (cart_pk c) = Some (t, s')"
    by (auto simp: CartSerializer_data_def split: option.splits)
  from database_total_price[OF this] show ?thesis by (simp add: s1)
qed

lemma database_CartSerializer_tail:
  "database (snd (case CartSerializer_data s2 c of
                    None \<Rightarrow> (r, s2)
                  | Some (d, s3) \<Rightarrow> (f d, s3))) = database s2"
proof (cases "CartSerializer_data s2 c")
  case None
  then show ?thesis by simp
next
  case (Some x)
  obtain d s3 where x: "x = (d, s3)" by (cases x)
  from database_CartSerializer_data[OF Some[unfolded x]] show ?thesis by (simp add: Some x)
qed

lemma database_cong:
  assumes "database s' = database s"
  shows "cart_items s' = cart_items s" "products s' = products s" "carts s' = carts s"
    "primary_key s' = primary_key s" "unique_together s' = unique_together s"
  using assms by (simp_all add: database_def primary_key_def unique_together_def)

subsection \<open>Adding a product, and adding it again\<close>

lemma distinct_map_filter_le1:
  "distinct (map f xs) \<Longrightarrow> length (filter (\<lambda>x. f x = v) xs) \<le> 1"
proof (induction xs)
  case Nil
  show ?case by simp
next
  case (Cons a xs)
  then have ih: "length (filter (\<lambda>x. f x = v) xs) \<le> 1" and a: "f a \<notin> f ` set xs"
    by simp_all
  show ?case
  proof (cases "f a = v")
    case True
    with a have "\<forall>x\<in>set xs. f x \<noteq> v" by (metis imageI)
    then have "filter (\<lambda>x. f x = v) xs = []"
      by (simp add: filter_empty_conv)
    with True show ?thesis by simp
  next
    case False
    with ih show ?thesis by simp
  qed
qed

lemma pair_filter_cases:
  assumes "unique_together s"
  shows "filter (\<lambda>i. cart i = c \<and> product i = p) (cart_items s) = []
       \<or> (\<exists>i. filter (\<lambda>i. cart i = c \<and> product i = p) (cart_items s) = [i])"
proof -
  have "length (filter (\<lambda>i. (cart i, product i) = (c, p)) (cart_items s)) \<le> 1"
    using assms unfolding unique_together_def by (rule distinct_map_filter_le1)
  then have "length (filter (\<lambda>i. cart i = c \<and> product i = p) (cart_items s)) \<le> 1" by simp
  then show ?thesis
    by (cases "filter (\<lambda>i. cart i = c \<and> product i = p) (cart_items s)") (auto simp: length_Suc_conv)
qed

lemma replace_row:
  assumes d: "distinct (map pk xs)" and i: "i \<in> set xs"
    and i': "pk i' = pk i" "cart i' = cart i" "product i' = product i"
  shows "map pk (map (\<lambda>j. if pk j = pk i' then i' else j) xs) = map pk xs"
    and "map (\<lambda>i. (cart i, product i)) (map (\<lambda>j. if pk j = pk i' then i' else j) xs)
           = map (\<lambda>i. (cart i, product i)) xs"
    and "filter (\<lambda>i. cart i = c \<and> product i = p) (map (\<lambda>j. if pk j = pk i' then i' else j) xs)
           = map (\<lambda>j. if pk j = pk i' then i' else j)
               (filter (\<lambda>i. cart i = c \<and> product i = p) xs)"
proof -
  have same: "\<And>j. j \<in> set xs \<Longrightarrow> pk j = pk i \<Longrightarrow> j = i"
    using d i by (meson distinct_map inj_on_eq_iff)
  show "map pk (map (\<lambda>j. if pk j = pk i' then i' else j) xs) = map pk xs"
    using i' by (simp add: comp_def)
  show "map (\<lambda>i. (cart i, product i)) (map (\<lambda>j. if pk j = pk i' then i' else j) xs)
           = map (\<lambda>i. (cart i, product i)) xs"
    using i' same by (auto simp: comp_def)
  show "filter (\<lambda>i. cart i = c \<and> product i = p) (map (\<lambda>j. if pk j = pk i' then i' else j) xs)
           = map (\<lambda>j. if pk j = pk i' then i' else j)
               (filter (\<lambda>i. cart i = c \<and> product i = p) xs)"
    unfolding filter_map using i' same
    by (auto simp: comp_def intro!: arg_cong[where f="map _"] filter_cong)
qed

lemma primary_key_alt:
  "primary_key s =
     (distinct (map pk (cart_items s)) \<and> (\<forall>n\<in>set (map pk (cart_items s)). n < next_item_pk s))"
  by (auto simp: primary_key_def list_all_iff)

text \<open>
  The state after \<^verbatim>\<open>get_or_create\<close> and the merge, as both add views compute it: under
  the table's constraints \<^verbatim>\<open>get_or_create\<close> succeeds, the pair has exactly one row
  afterwards, and its quantity is what the pair held before plus the request, capped.
\<close>

lemma add_merge_effect:
  assumes pkey: "primary_key s" and uniq: "unique_together s"
    and q: "1 \<le> q" "q \<le> 99"
  shows "\<exists>i created s1 i'.
           CartItem_get_or_create s c p q = Inr (i, created, s1)
         \<and> (let s2 = (if \<not> created then
                         (let n = quantity i + q; n' = (if n > 99 then 99 else n)
                          in CartItem_save s1 (i\<lparr>quantity := n'\<rparr>))
                       else s1)
            in filter (\<lambda>i. cart i = c \<and> product i = p) (cart_items s2) = [i']
             \<and> quantity i'
                 = min (sum_list (map quantity
                          (filter (\<lambda>i. cart i = c \<and> product i = p) (cart_items s))) + q) 99
             \<and> primary_key s2 \<and> unique_together s2
             \<and> products s2 = products s \<and> carts s2 = carts s)"
proof -
  let ?P = "\<lambda>i. cart i = c \<and> product i = p"
  from pair_filter_cases[OF uniq, of c p] show ?thesis
  proof
    assume e: "filter ?P (cart_items s) = []"
    let ?i = "\<lparr>pk = next_item_pk s, cart = c, product = p, quantity = q\<rparr>"
    let ?s1 = "snd (CartItem_objects_create s c p q)"
    have g: "CartItem_get_or_create s c p q = Inr (?i, True, ?s1)"
      using e by (simp add: CartItem_get_or_create_def CartItem_objects_create_def Let_def)
    have ci: "cart_items ?s1 = cart_items s @ [?i]"
      and nx: "next_item_pk ?s1 = Suc (next_item_pk s)"
      by (simp_all add: CartItem_objects_create_def Let_def Cart_clear_cache_def
            cache_delete_def)
    have f: "filter ?P (cart_items ?s1) = [?i]" using e by (simp add: ci)
    have fresh: "next_item_pk s \<notin> pk ` set (cart_items s)"
      using pkey by (auto simp: primary_key_def list_all_iff)
    have pk': "primary_key ?s1"
      using pkey fresh by (auto simp: primary_key_def ci nx list_all_iff)
    have "(c, p) \<notin> (\<lambda>i. (cart i, product i)) ` set (cart_items s)"
      using e by (auto simp: filter_empty_conv)
    then have un': "unique_together ?s1"
      using uniq by (simp add: unique_together_def ci)
    have qq: "quantity ?i = min (sum_list (map quantity (filter ?P (cart_items s))) + q) 99"
      using q e by simp
    show ?thesis
      by (rule exI[of _ ?i], rule exI[of _ True], rule exI[of _ ?s1], rule exI[of _ ?i])
         (use g f pk' un' qq in \<open>simp add: cart_items_objects_create del: select_convs\<close>)
  next
    assume "\<exists>i. filter ?P (cart_items s) = [i]"
    then obtain i where e: "filter ?P (cart_items s) = [i]" ..
    then have mem: "i \<in> set (cart_items s)" by (rule filter_singleton_member)
    from e have "i \<in> set (filter ?P (cart_items s))" by simp
    then have Pi: "cart i = c" "product i = p" by simp_all
    let ?i' = "i\<lparr>quantity := min (quantity i + q) 99\<rparr>"
    let ?s2 = "CartItem_save s ?i'"
    have g: "CartItem_get_or_create s c p q = Inr (i, False, s)"
      using e by (simp add: CartItem_get_or_create_def)
    have d: "distinct (map pk (cart_items s))" using pkey by (simp add: primary_key_def)
    have ip: "pk ?i' = pk i" "cart ?i' = cart i" "product ?i' = product i" by simp_all
    note r = replace_row(1)[OF d mem ip] replace_row(2)[OF d mem ip]
      replace_row(3)[OF d mem ip, of c p]
    have f: "filter ?P (cart_items ?s2) = [?i']"
      using r(3) e by simp
    have mp: "map pk (cart_items ?s2) = map pk (cart_items s)"
      by (simp only: cart_items_save r(1))
    have nx: "next_item_pk ?s2 = next_item_pk s"
      by (simp add: CartItem_save_def Cart_clear_cache_def cache_delete_def)
    have pk': "primary_key ?s2"
      unfolding primary_key_alt mp nx using pkey unfolding primary_key_alt .
    have "map (\<lambda>i. (cart i, product i)) (cart_items ?s2)
            = map (\<lambda>i. (cart i, product i)) (cart_items s)"
      by (simp only: cart_items_save r(2))
    then have un': "unique_together ?s2"
      using uniq by (simp only: unique_together_def)
    have m: "(let n = quantity i + q; n' = (if n > 99 then 99 else n)
              in CartItem_save s (i\<lparr>quantity := n'\<rparr>)) = ?s2"
      by (simp add: Let_def min_def)
    have qq: "quantity ?i' = min (sum_list (map quantity (filter ?P (cart_items s))) + q) 99"
      by (simp add: e)
    show ?thesis
      by (rule exI[of _ i], rule exI[of _ False], rule exI[of _ s], rule exI[of _ ?i'])
         (use g f pk' un' m qq in \<open>simp del: select_convs cart_items_save\<close>)
  qed
qed

lemma get_object_cart_SomeD:
  "CartViewSet_get_object s u k = Some c \<Longrightarrow> cart_pk c = k"
  unfolding CartViewSet_get_object_def CartViewSet_get_queryset_def
  by (drule find_filter_SomeD) simp

lemma get_object_cart_cong:
  "carts s' = carts s \<Longrightarrow> CartViewSet_get_object s' u k = CartViewSet_get_object s u k"
  by (simp add: CartViewSet_get_object_def CartViewSet_get_queryset_def)

lemma Product_get_available_cong:
  "products s' = products s \<Longrightarrow> Product_get_available s' pid = Product_get_available s pid"
  by (simp add: Product_get_available_def)

lemma get_or_create_user_effect:
  assumes "Cart_get_or_create_user s u = Inr (c, s1)"
  shows "cart_items s1 = cart_items s \<and> next_item_pk s1 = next_item_pk s
       \<and> products s1 = products s \<and> cache s1 = cache s"
    and "filter (\<lambda>c. user c = Some u) (carts s1) = [c]"
  using assms
  by (auto simp: Cart_get_or_create_user_def Cart_objects_create_def Let_def
        split: list.splits)

lemma get_or_create_session_effect:
  assumes "Cart_get_or_create_session s k = Inr (c, s1)"
  shows "cart_items s1 = cart_items s \<and> next_item_pk s1 = next_item_pk s
       \<and> products s1 = products s \<and> cache s1 = cache s"
    and "filter (\<lambda>c. session_key c = Some k) (carts s1) = [c]"
  using assms
  by (auto simp: Cart_get_or_create_session_def Cart_objects_create_def Let_def
        split: list.splits)

lemma get_cart_effect:
  assumes "CartMixin_get_cart s r = Inr (c, s1)"
  shows "cart_items s1 = cart_items s \<and> next_item_pk s1 = next_item_pk s
       \<and> products s1 = products s \<and> cache s1 = cache s"
    and "carts s' = carts s1 \<Longrightarrow> CartMixin_get_cart s' r = Inr (c, s')"
proof -
  show "cart_items s1 = cart_items s \<and> next_item_pk s1 = next_item_pk s
       \<and> products s1 = products s \<and> cache s1 = cache s"
  proof (cases "auth_user r")
    case (Some u)
    with assms have "Cart_get_or_create_user s u = Inr (c, s1)"
      by (simp add: CartMixin_get_cart_def)
    then show ?thesis by (rule get_or_create_user_effect(1))
  next
    case None
    with assms have "Cart_get_or_create_session s
        (case session r of None \<Rightarrow> new_session r
         | Some k \<Rightarrow> if k = [] then new_session r else k) = Inr (c, s1)"
      by (simp add: CartMixin_get_cart_def Let_def)
    then show ?thesis by (rule get_or_create_session_effect(1))
  qed
  assume s': "carts s' = carts s1"
  show "CartMixin_get_cart s' r = Inr (c, s')"
  proof (cases "auth_user r")
    case (Some u)
    with assms have "Cart_get_or_create_user s u = Inr (c, s1)"
      by (simp add: CartMixin_get_cart_def)
    from get_or_create_user_effect(2)[OF this] s' Some show ?thesis
      by (simp add: CartMixin_get_cart_def Cart_get_or_create_user_def)
  next
    case None
    define k where "k = (case session r of
                      None \<Rightarrow> new_session r
                    | Some k \<Rightarrow> if k = [] then new_session r else k)"
    with assms None have "Cart_get_or_create_session s k = Inr (c, s1)"
      by (simp add: CartMixin_get_cart_def Let_def)
    from get_or_create_session_effect(2)[OF this] s' None show ?thesis
      by (simp add: CartMixin_get_cart_def Cart_get_or_create_session_def Let_def k_def)
  qed
qed

lemma add_to_cart_effect:
  assumes pkey: "primary_key s" and uniq: "unique_together s"
    and c: "CartMixin_get_cart s r = Inr (c, s1)"
    and p: "Product_get_available s pid = Some p"
    and q: "1 \<le> q" "q \<le> 99"
  shows "\<exists>i'. filter (\<lambda>i. cart i = cart_pk c \<and> product i = pid)
                (cart_items (snd (add_to_cart s r pid (Payload (Some q))))) = [i']
          \<and> quantity i'
              = min (sum_list (map quantity
                       (filter (\<lambda>i. cart i = cart_pk c \<and> product i = pid) (cart_items s))) + q) 99
          \<and> primary_key (snd (add_to_cart s r pid (Payload (Some q))))
          \<and> unique_together (snd (add_to_cart s r pid (Payload (Some q))))
          \<and> products (snd (add_to_cart s r pid (Payload (Some q)))) = products s
          \<and> carts (snd (add_to_cart s r pid (Payload (Some q)))) = carts s1"
proof -
  note e = get_cart_effect(1)[OF c]
  have pkey1: "primary_key s1" and uniq1: "unique_together s1"
    using pkey uniq e by (simp_all add: primary_key_def unique_together_def)
  from add_merge_effect[OF pkey1 uniq1 q, of "cart_pk c" pid]
  obtain i created s2 i' where g: "CartItem_get_or_create s1 (cart_pk c) pid q = Inr (i, created, s2)"
    and b: "(let s3 = (if \<not> created then
                         (let n = quantity i + q; n' = (if n > 99 then 99 else n)
                          in CartItem_save s2 (i\<lparr>quantity := n'\<rparr>))
                       else s2)
            in filter (\<lambda>i. cart i = cart_pk c \<and> product i = pid) (cart_items s3) = [i']
             \<and> quantity i'
                 = min (sum_list (map quantity
                          (filter (\<lambda>i. cart i = cart_pk c \<and> product i = pid) (cart_items s1))) + q) 99
             \<and> primary_key s3 \<and> unique_together s3
             \<and> products s3 = products s1 \<and> carts s3 = carts s1)"
    by blast
  let ?s3 = "if \<not> created then
               (let n = quantity i + q; n' = (if n > 99 then 99 else n)
                in CartItem_save s2 (i\<lparr>quantity := n'\<rparr>))
             else s2"
  have "snd (add_to_cart s r pid (Payload (Some q))) = cache_delete ?s3 (CartKey (cart_pk c))"
    using q p c g by (simp add: add_to_cart_result add_to_cart_try_def Let_def)
  then have "database (snd (add_to_cart s r pid (Payload (Some q)))) = database ?s3"
    by simp
  note d = database_cong[OF this]
  from b e show ?thesis
    unfolding Let_def [of ?s3] d by simp
qed

lemma min_merge_twice:
  fixes e :: int
  assumes "1 \<le> q2"
  shows "min (min (e + q1) 99 + q2) 99 = min (e + q1 + q2) 99"
  using assms by (simp add: min_def)




subsection \<open>Adding a product that is missing or unavailable\<close>

lemma add_to_cart_product_not_found:
  assumes "1 \<le> q" "q \<le> 99"
    and "Product_get_available s pid = None"
  shows "add_to_cart s r pid (Payload (Some q)) = (\<lparr>status = 500, data = Detail\<rparr>, s)"
  using assms by (simp add: add_to_cart_result add_to_cart_try_def)

lemma add_item_valid_quantity_is_500:
  assumes "CartViewSet_get_object s u k = Some c"
    and "1 \<le> q" "q \<le> 99"
  shows "CartViewSet_add_item s u k pid q = (\<lparr>status = 500, data = Detail\<rparr>, s)"
  using assms
  by (simp add: CartViewSet_add_item_def CartItemCreateSerializer_is_valid_def
        CartItemCreateSerializer_validate_quantity_def)

text \<open>
  Claim C7. Adding a product that does not exist or is unavailable is to fail with 404 and
  change nothing. Both paths change nothing, and neither answers 404. The REST action
  raises \<^verbatim>\<open>KeyError\<close> at \<^verbatim>\<open>serializer.validated_data['product_id']\<close>, before it looks
  the product up, and the request ends in 500. In the storefront view the \<^verbatim>\<open>Http404\<close>
  of \<^verbatim>\<open>get_object_or_404\<close> is raised inside the \<^verbatim>\<open>try\<close> and taken by
  \<^verbatim>\<open>except Exception\<close>, whose \<^verbatim>\<open>return JsonResponse(...)\<close> raises \<^verbatim>\<open>NameError\<close>, and
  the request ends in 500 as well. Here product 2 is unavailable and product 3 does not
  exist; the cart holds 5 of product 1.
\<close>

theorem add_not_found_is_500:
  "Product_get_available (shop [row 5]) 2 = None
   \<and> Product_get_available (shop [row 5]) 3 = None
   \<and> add_to_cart (shop [row 5]) visitor 2 (Payload (Some 1))
       = (\<lparr>status = 500, data = Detail\<rparr>, shop [row 5])
   \<and> add_to_cart (shop [row 5]) visitor 3 (Payload (Some 1))
       = (\<lparr>status = 500, data = Detail\<rparr>, shop [row 5])
   \<and> CartViewSet_add_item (shop [row 5]) 1 1 2 1
       = (\<lparr>status = 500, data = Detail\<rparr>, shop [row 5])
   \<and> CartViewSet_add_item (shop [row 5]) 1 1 3 1
       = (\<lparr>status = 500, data = Detail\<rparr>, shop [row 5])"
proof -
  have p: "Product_get_available (shop [row 5]) 2 = None"
      "Product_get_available (shop [row 5]) 3 = None"
    by (simp_all add: Product_get_available_def shop_def)
  have g: "CartViewSet_get_object (shop [row 5]) 1 1
             = Some \<lparr>cart_pk = 1, user = Some 1, session_key = None\<rparr>"
    by (simp add: CartViewSet_get_object_def CartViewSet_get_queryset_def shop_def)
  have q: "(1::int) \<le> 1" "(1::int) \<le> 99" by simp_all
  show ?thesis
    using p add_to_cart_product_not_found[OF q p(1)] add_to_cart_product_not_found[OF q p(2)]
      add_item_valid_quantity_is_500[OF g q]
    by (simp only: simp_thms)
qed

subsection \<open>Clearing a cart and the cached totals\<close>

lemma clear_cart_keeps_cached_totals:
  assumes "CartMixin_get_cart s r = Inr (c, s1)"
  shows "cache (snd (clear_cart s r)) (CartTotalKey n) = cache s (CartTotalKey n)
       \<and> cache (snd (clear_cart s r)) (CartItemsKey n) = cache s (CartItemsKey n)"
  using assms get_cart_effect(1)[OF assms]
  by (simp add: clear_cart_result clear_cart_try_def Let_def cache_delete_def QuerySet_delete_def)

lemma CartViewSet_clear_serves_cached_totals:
  assumes "CartViewSet_get_object s u k = Some c"
    and "cache s (CartItemsKey k) = Some n" and "cache s (CartTotalKey k) = Some t"
  shows "CartViewSet_clear s u k
           = (\<lparr>status = 200, data = CartData k [] n t\<rparr>, QuerySet_delete s k)"
proof -
  have k: "cart_pk c = k" using assms(1) by (rule get_object_cart_SomeD)
  have "Cart_items (QuerySet_delete s k) k = []"
    by (simp add: Cart_items_def filter_empty_conv QuerySet_delete_def)
  with assms k show ?thesis
    by (simp add: CartViewSet_clear_def CartSerializer_data_def Cart_total_items_def
          Cart_total_price_def cache_get_def Let_def QuerySet_delete_def)
qed

text \<open>
  Claim C3. Clearing a cart is to invalidate the cached totals, so that the next reads
  give 0. It does not: the bulk delete of the rows runs no \<^verbatim>\<open>CartItem.delete\<close>, the
  REST action deletes no cache key, and the storefront view deletes \<^verbatim>\<open>cart_{id}\<close>, which
  is not a key of the totals. The cart holds 2 of product 1. The summary action reads
  both totals and so caches them, 2 and 200.00. A clear on either path after it leaves
  the cart without items and both entries in place: the answer of the REST clear gives
  the totals 2 and 200.00, and after either clear \<^verbatim>\<open>total_items\<close> still reads 2 and
  \<^verbatim>\<open>total_price\<close> still reads 200.00.
\<close>

theorem clear_serves_stale_totals:
  "fst (CartViewSet_summary (shop [row 2]) 1 1)
     = \<lparr>status = 200, data = SummaryData 2 20000 1\<rparr>
   \<and> cache (run (shop [row 2]) [ApiSummary 1 1]) (CartItemsKey 1) = Some 2
   \<and> cache (run (shop [row 2]) [ApiSummary 1 1]) (CartTotalKey 1) = Some 20000
   \<and> fst (CartViewSet_clear (run (shop [row 2]) [ApiSummary 1 1]) 1 1)
       = \<lparr>status = 200, data = CartData 1 [] 2 20000\<rparr>
   \<and> Cart_items (run (shop [row 2]) [ApiSummary 1 1, ApiClear 1 1]) 1 = []
   \<and> fst (Cart_total_items (run (shop [row 2]) [ApiSummary 1 1, ApiClear 1 1]) 1) = 2
   \<and> map_option fst (Cart_total_price (run (shop [row 2]) [ApiSummary 1 1, ApiClear 1 1]) 1)
       = Some 20000
   \<and> Cart_items (run (shop [row 2]) [ApiSummary 1 1, WebClearCart visitor]) 1 = []
   \<and> fst (Cart_total_items (run (shop [row 2]) [ApiSummary 1 1, WebClearCart visitor]) 1) = 2
   \<and> map_option fst
        (Cart_total_price (run (shop [row 2]) [ApiSummary 1 1, WebClearCart visitor]) 1)
       = Some 20000"
  by (simp add: view_defs)

subsection \<open>The derived totals\<close>

lemma those_map_total_price:
  assumes "\<forall>i\<in>set xs. \<exists>p. products s (product i) = Some p \<and> price p = pr (product i)"
  shows "those (map (CartItem_total_price s) xs)
           = Some (map (\<lambda>i. quantity i * pr (product i)) xs)"
  using assms by (induction xs) (auto simp: CartItem_total_price_def)

lemma Cart_items_cache_ops [simp]:
  "Cart_items (cache_set s k v) c = Cart_items s c"
  "Cart_items (cache_delete s k) c = Cart_items s c"
  "Cart_items (Cart_clear_cache s c') c = Cart_items s c"
  by (simp_all add: Cart_items_def)

lemma CartItem_total_price_cong:
  "products s' = products s \<Longrightarrow> CartItem_total_price s' = CartItem_total_price s"
  by (rule ext) (simp add: CartItem_total_price_def)

text \<open>
  Claim C4. Derived totals: for every cart with no cached entry, \<^verbatim>\<open>total_price\<close> returns
  the sum over its items of quantity times the price of the item's product, and
  \<^verbatim>\<open>total_items\<close> the sum of the quantities; each read leaves its value in the cache,
  the next read serves it from there, and after the cache is cleared with no change to
  the tables in between, the recomputed value equals the one that was cached. The same
  holds in every store with the same tables and no entry for the cart, however its cache
  came about. Every item's product row exists, with price \<open>pr\<close> of its key.
\<close>

theorem derived_totals:
  assumes "cache s (CartTotalKey c) = None" and "cache s (CartItemsKey c) = None"
    and "\<forall>i\<in>set (Cart_items s c). \<exists>p. products s (product i) = Some p \<and> price p = pr (product i)"
  shows "(let T = (\<Sum>i\<leftarrow>Cart_items s c. quantity i * pr (product i));
              N = (\<Sum>i\<leftarrow>Cart_items s c. quantity i);
              s1 = cache_set s (CartTotalKey c) T;
              s2 = cache_set s1 (CartItemsKey c) N
          in Cart_total_price s c = Some (T, s1)
           \<and> Cart_total_items s1 c = (N, s2)
           \<and> Cart_total_price s2 c = Some (T, s2)
           \<and> Cart_total_items s2 c = (N, s2)
           \<and> map_option fst (Cart_total_price (Cart_clear_cache s2 c) c) = Some T
           \<and> fst (Cart_total_items (Cart_clear_cache s2 c) c) = N
           \<and> (\<forall>s'. database s' = database s \<and> cache s' (CartTotalKey c) = None
                  \<longrightarrow> map_option fst (Cart_total_price s' c) = Some T)
           \<and> (\<forall>s'. database s' = database s \<and> cache s' (CartItemsKey c) = None
                  \<longrightarrow> fst (Cart_total_items s' c) = N))"
proof -
  let ?T = "\<Sum>i\<leftarrow>Cart_items s c. quantity i * pr (product i)"
  let ?N = "\<Sum>i\<leftarrow>Cart_items s c. quantity i"
  let ?s1 = "cache_set s (CartTotalKey c) ?T"
  let ?s2 = "cache_set ?s1 (CartItemsKey c) ?N"
  note th = those_map_total_price[OF assms(3)]
  have a: "Cart_total_price s c = Some (?T, ?s1)"
    using assms(1) th by (simp add: Cart_total_price_def cache_get_def Let_def)
  have b: "Cart_total_items ?s1 c = (?N, ?s2)"
    using assms(2) by (simp add: Cart_total_items_def cache_get_def Let_def)
  have c: "Cart_total_price ?s2 c = Some (?T, ?s2)"
    by (simp add: Cart_total_price_def cache_get_def)
  have d: "Cart_total_items ?s2 c = (?N, ?s2)"
    by (simp add: Cart_total_items_def cache_get_def)
  have pr: "CartItem_total_price (Cart_clear_cache ?s2 c) = CartItem_total_price s"
    by (rule CartItem_total_price_cong) simp
  have e: "map_option fst (Cart_total_price (Cart_clear_cache ?s2 c) c) = Some ?T"
    using th by (simp add: Cart_total_price_def cache_get_def Let_def pr)
  have f: "fst (Cart_total_items (Cart_clear_cache ?s2 c) c) = ?N"
    by (simp add: Cart_total_items_def cache_get_def Let_def)
  have g: "map_option fst (Cart_total_price s' c) = Some ?T"
    if "database s' = database s \<and> cache s' (CartTotalKey c) = None" for s'
  proof -
    from that have "Cart_items s' c = Cart_items s c" and "products s' = products s"
      by (simp_all add: database_def Cart_items_def)
    from this(1) CartItem_total_price_cong[OF this(2)] that th show ?thesis
      by (simp add: Cart_total_price_def cache_get_def Let_def)
  qed
  have h: "fst (Cart_total_items s' c) = ?N"
    if "database s' = database s \<and> cache s' (CartItemsKey c) = None" for s'
  proof -
    from that have "Cart_items s' c = Cart_items s c"
      by (simp add: database_def Cart_items_def)
    with that show ?thesis
      by (simp add: Cart_total_items_def cache_get_def Let_def)
  qed
  show ?thesis
    unfolding Let_def using a b c d e f g h by blast
qed

theorem derived_totals_witness:
  "cache (shop [row 2, \<lparr>pk = 2, cart = 1, product = 2, quantity = 3\<rparr>]) (CartTotalKey 1) = None
   \<and> cache (shop [row 2, \<lparr>pk = 2, cart = 1, product = 2, quantity = 3\<rparr>]) (CartItemsKey 1) = None
   \<and> map_option fst
        (Cart_total_price (shop [row 2, \<lparr>pk = 2, cart = 1, product = 2, quantity = 3\<rparr>]) 1)
       = Some 21500
   \<and> fst (Cart_total_items
            (cache_set (shop [row 2, \<lparr>pk = 2, cart = 1, product = 2, quantity = 3\<rparr>])
               (CartTotalKey 1) 21500) 1) = 5"
proof -
  let ?s = "shop [row 2, \<lparr>pk = 2, cart = 1, product = 2, quantity = 3\<rparr>]"
  let ?pr = "\<lambda>k::nat. if k = 1 then 10000 else (500::int)"
  have h1: "cache ?s (CartTotalKey 1) = None" and h2: "cache ?s (CartItemsKey 1) = None"
    by (simp_all add: shop_def)
  have ci: "Cart_items ?s 1 = [row 2, \<lparr>pk = 2, cart = 1, product = 2, quantity = 3\<rparr>]"
    by (simp add: Cart_items_def shop_def row_def)
  have h3: "\<forall>i\<in>set (Cart_items ?s 1).
              \<exists>p. products ?s (product i) = Some p \<and> price p = ?pr (product i)"
    unfolding ci by (simp add: shop_def row_def)
  have T: "(\<Sum>i\<leftarrow>Cart_items ?s 1. quantity i * ?pr (product i)) = 21500"
    and N: "(\<Sum>i\<leftarrow>Cart_items ?s 1. quantity i) = 5"
    unfolding ci by (simp_all add: row_def)
  note t = derived_totals[OF h1 h2 h3, unfolded Let_def T N]
  from t have "Cart_total_price ?s 1 = Some (21500, cache_set ?s (CartTotalKey 1) 21500)"
    and "Cart_total_items (cache_set ?s (CartTotalKey 1) 21500) 1
           = (5, cache_set (cache_set ?s (CartTotalKey 1) 21500) (CartItemsKey 1) 5)"
    by blast+
  with h1 h2 show ?thesis by simp
qed

subsection \<open>Clearing a cart, and clearing it again\<close>

lemma Cart_items_QuerySet_delete [simp]: "Cart_items (QuerySet_delete s k) k = []"
  by (simp add: Cart_items_def filter_empty_conv)

lemma QuerySet_delete_empty:
  "Cart_items s k = [] \<Longrightarrow> QuerySet_delete s k = s"
proof -
  assume "Cart_items s k = []"
  then have "filter (\<lambda>i. cart i \<noteq> k) (cart_items s) = cart_items s"
    by (auto simp: Cart_items_def filter_empty_conv filter_id_conv)
  then show ?thesis by (simp add: QuerySet_delete_def)
qed

lemma Cart_items_cache_update [simp]: "Cart_items (s\<lparr>cache := m\<rparr>) c = Cart_items s c"
  by (simp add: Cart_items_def)

text \<open>
  Serializing a cart without items cannot fail, and touches the cache only to store the
  totals 0 under keys that had no entry.
\<close>

lemma CartSerializer_data_empty:
  assumes "Cart_items s (cart_pk c) = []"
  shows "\<exists>n t s'. CartSerializer_data s c = Some (CartData (cart_pk c) [] n t, s')
           \<and> database s' = database s
           \<and> (\<forall>key. cache s' key = cache s key
                 \<or> (cache s key = None \<and> cache s' key = Some 0
                     \<and> (key = CartTotalKey (cart_pk c) \<or> key = CartItemsKey (cart_pk c))))"
  using assms
  by (auto simp: CartSerializer_data_def Cart_total_items_def Cart_total_price_def
        cache_get_def Let_def database_def cache_set_def split: option.splits)

lemma CartViewSet_clear_effect:
  assumes "CartViewSet_get_object s u k = Some c"
  shows "\<exists>n t s'. CartViewSet_clear s u k = (\<lparr>status = 200, data = CartData k [] n t\<rparr>, s')
           \<and> database s' = database (QuerySet_delete s k)
           \<and> (\<forall>key. cache s' key = cache s key
                 \<or> (cache s key = None \<and> cache s' key = Some 0
                     \<and> (key = CartTotalKey k \<or> key = CartItemsKey k)))"
proof -
  have k: "cart_pk c = k" using assms by (rule get_object_cart_SomeD)
  have "Cart_items (QuerySet_delete s k) (cart_pk c) = []" by (simp add: k)
  from CartSerializer_data_empty[OF this] k
  obtain n t s' where "CartSerializer_data (QuerySet_delete s k) c = Some (CartData k [] n t, s')"
    and "database s' = database (QuerySet_delete s k)"
    and "\<forall>key. cache s' key = cache s key
                 \<or> (cache s key = None \<and> cache s' key = Some 0
                     \<and> (key = CartTotalKey k \<or> key = CartItemsKey k))"
    by auto
  with assms k show ?thesis
    by (simp add: CartViewSet_clear_def Let_def)
qed

lemma Cart_items_database:
  "database s' = database s \<Longrightarrow> Cart_items s' c = Cart_items s c"
  by (simp add: database_def Cart_items_def)

lemma database_QuerySet_delete_carts [simp]:
  "database s' = database (QuerySet_delete s k) \<Longrightarrow> carts s' = carts s"
  by (simp add: database_def)
lemma clear_cart_effect:
  assumes "CartMixin_get_cart s r = Inr (c, s1)"
  shows "clear_cart s r
           = (\<lparr>status = 500, data = Detail\<rparr>,
              cache_delete (QuerySet_delete s1 (cart_pk c)) (CartKey (cart_pk c)))"
  using assms by (simp add: clear_cart_result clear_cart_try_def Let_def)

text \<open>
  Claim C9. Clearing a cart twice. For every cart that the request resolves, the REST
  action does what the claim says: a clear answers 200 and leaves the cart without
  items; a second clear right after it answers 200 again, leaves the cart without items
  and changes no table; and a clear of a cart that has no items answers 200 and changes no
  table (its answer reads the totals, and so may store 0 under this cart's two total keys
  when they had no entry). The storefront view removes the rows, and its second run and
  its run on a cart without items change no table, but every one of its requests is
  answered with 500 and not with success:
  \<^verbatim>\<open>return JsonResponse({'success': True, ...})\<close> raises \<^verbatim>\<open>NameError\<close>, the module never
  imports that name, and the handler that takes the exception raises it again.
\<close>

theorem clear_twice:
  "(\<forall>c. CartViewSet_get_object s u k = Some c \<longrightarrow>
       status (fst (CartViewSet_clear s u k)) = 200
     \<and> Cart_items (run s [ApiClear u k]) k = []
     \<and> status (fst (CartViewSet_clear (run s [ApiClear u k]) u k)) = 200
     \<and> Cart_items (run s [ApiClear u k, ApiClear u k]) k = []
     \<and> database (run s [ApiClear u k, ApiClear u k]) = database (run s [ApiClear u k])
     \<and> (Cart_items s k = [] \<longrightarrow>
           database (run s [ApiClear u k]) = database s
         \<and> (\<forall>key. cache (run s [ApiClear u k]) key = cache s key
               \<or> (cache s key = None \<and> cache (run s [ApiClear u k]) key = Some 0
                   \<and> (key = CartTotalKey k \<or> key = CartItemsKey k)))))
   \<and> (\<forall>c s1. CartMixin_get_cart s r = Inr (c, s1) \<longrightarrow>
       fst (clear_cart s r) = \<lparr>status = 500, data = Detail\<rparr>
     \<and> Cart_items (run s [WebClearCart r]) (cart_pk c) = []
     \<and> fst (clear_cart (run s [WebClearCart r]) r) = \<lparr>status = 500, data = Detail\<rparr>
     \<and> Cart_items (run s [WebClearCart r, WebClearCart r]) (cart_pk c) = []
     \<and> database (run s [WebClearCart r, WebClearCart r]) = database (run s [WebClearCart r])
     \<and> (Cart_items s (cart_pk c) = [] \<longrightarrow>
           run s [WebClearCart r] = cache_delete s1 (CartKey (cart_pk c))))"
proof (intro conjI allI impI)
  fix c assume c: "CartViewSet_get_object s u k = Some c"
  from CartViewSet_clear_effect[OF c]
  obtain n t s' where r1: "CartViewSet_clear s u k = (\<lparr>status = 200, data = CartData k [] n t\<rparr>, s')"
    and d1: "database s' = database (QuerySet_delete s k)"
    and k1: "\<forall>key. cache s' key = cache s key
                 \<or> (cache s key = None \<and> cache s' key = Some 0
                     \<and> (key = CartTotalKey k \<or> key = CartItemsKey k))"
    by blast
  have run1: "run s [ApiClear u k] = s'" by (simp add: r1)
  have e1: "Cart_items s' k = []" using Cart_items_database[OF d1, of k] by simp
  have c': "CartViewSet_get_object s' u k = Some c"
    using c get_object_cart_cong[of s' s u k] d1 by simp
  from CartViewSet_clear_effect[OF c']
  obtain n' t' s'' where r2: "CartViewSet_clear s' u k
        = (\<lparr>status = 200, data = CartData k [] n' t'\<rparr>, s'')"
    and d2: "database s'' = database (QuerySet_delete s' k)"
    by blast
  have run2: "run s [ApiClear u k, ApiClear u k] = s''" by (simp add: r1 r2)
  have d2': "database s'' = database s'" using d2 QuerySet_delete_empty[OF e1] by simp
  show "status (fst (CartViewSet_clear s u k)) = 200" by (simp add: r1)
  show "Cart_items (run s [ApiClear u k]) k = []" unfolding run1 by (rule e1)
  show "status (fst (CartViewSet_clear (run s [ApiClear u k]) u k)) = 200"
    unfolding run1 by (simp add: r2)
  show "Cart_items (run s [ApiClear u k, ApiClear u k]) k = []"
    unfolding run2 using Cart_items_database[OF d2', of k] e1 by simp
  show "database (run s [ApiClear u k, ApiClear u k]) = database (run s [ApiClear u k])"
    unfolding run1 run2 by (rule d2')
  show "database (run s [ApiClear u k]) = database s" if "Cart_items s k = []"
    unfolding run1 using d1 QuerySet_delete_empty[OF that] by simp
  show "cache (run s [ApiClear u k]) key = cache s key
               \<or> (cache s key = None \<and> cache (run s [ApiClear u k]) key = Some 0
                   \<and> (key = CartTotalKey k \<or> key = CartItemsKey k))" for key
    unfolding run1 using k1 by blast
next
  fix c s1 assume c: "CartMixin_get_cart s r = Inr (c, s1)"
  let ?k = "cart_pk c"
  let ?s' = "cache_delete (QuerySet_delete s1 ?k) (CartKey ?k)"
  note r1 = clear_cart_effect[OF c]
  have run1: "run s [WebClearCart r] = ?s'" by (simp add: r1)
  have c': "CartMixin_get_cart ?s' r = Inr (c, ?s')"
    by (rule get_cart_effect(2)[OF c]) simp
  note r2 = clear_cart_effect[OF c']
  have e1: "Cart_items ?s' ?k = []" by simp
  have run2: "run s [WebClearCart r, WebClearCart r]
                = cache_delete (QuerySet_delete ?s' ?k) (CartKey ?k)"
    by (simp add: r1 r2)
  have i1: "Cart_items s1 ?k = Cart_items s ?k"
    using get_cart_effect(1)[OF c] by (simp add: Cart_items_def)
  show "fst (clear_cart s r) = \<lparr>status = 500, data = Detail\<rparr>" by (simp add: r1)
  show "Cart_items (run s [WebClearCart r]) ?k = []" unfolding run1 by (rule e1)
  show "fst (clear_cart (run s [WebClearCart r]) r) = \<lparr>status = 500, data = Detail\<rparr>"
    unfolding run1 by (simp add: r2)
  show "Cart_items (run s [WebClearCart r, WebClearCart r]) ?k = []"
    unfolding run2 by simp
  show "database (run s [WebClearCart r, WebClearCart r]) = database (run s [WebClearCart r])"
    unfolding run1 run2 using QuerySet_delete_empty[OF e1] by simp
  show "run s [WebClearCart r] = cache_delete s1 (CartKey ?k)" if "Cart_items s ?k = []"
    unfolding run1 using QuerySet_delete_empty[of s1 ?k] that i1 by simp
qed

theorem clear_twice_witness:
  "CartViewSet_get_object (shop [row 2]) 1 1
     = Some \<lparr>cart_pk = 1, user = Some 1, session_key = None\<rparr>
   \<and> status (fst (CartViewSet_clear (shop [row 2]) 1 1)) = 200
   \<and> status (fst (CartViewSet_clear (run (shop [row 2]) [ApiClear 1 1]) 1 1)) = 200
   \<and> Cart_items (run (shop [row 2]) [ApiClear 1 1, ApiClear 1 1]) 1 = []
   \<and> CartMixin_get_cart (shop [row 2]) visitor
       = Inr (\<lparr>cart_pk = 1, user = Some 1, session_key = None\<rparr>, shop [row 2])
   \<and> fst (clear_cart (shop [row 2]) visitor) = \<lparr>status = 500, data = Detail\<rparr>
   \<and> fst (clear_cart (run (shop [row 2]) [WebClearCart visitor]) visitor)
       = \<lparr>status = 500, data = Detail\<rparr>
   \<and> Cart_items (run (shop [row 2]) [WebClearCart visitor, WebClearCart visitor]) 1 = []
   \<and> CartViewSet_get_object (shop []) 1 1
       = Some \<lparr>cart_pk = 1, user = Some 1, session_key = None\<rparr>
   \<and> Cart_items (shop []) 1 = []
   \<and> database (run (shop []) [ApiClear 1 1]) = database (shop [])"
proof -
  have g: "CartViewSet_get_object (shop rows) 1 1
             = Some \<lparr>cart_pk = 1, user = Some 1, session_key = None\<rparr>" for rows
    by (simp add: CartViewSet_get_object_def CartViewSet_get_queryset_def shop_def)
  have w: "CartMixin_get_cart (shop [row 2]) visitor
             = Inr (\<lparr>cart_pk = 1, user = Some 1, session_key = None\<rparr>, shop [row 2])"
    by (simp add: CartMixin_get_cart_def Cart_get_or_create_user_def visitor_def shop_def)
  have e: "Cart_items (shop []) 1 = []" by (simp add: Cart_items_def shop_def)
  note a = clear_twice[of "shop [row 2]" 1 1 visitor, THEN conjunct1, rule_format, OF g]
  note b = clear_twice[of "shop [row 2]" 1 1 visitor, THEN conjunct2, rule_format, OF w]
  note c = clear_twice[of "shop []" 1 1 visitor, THEN conjunct1, rule_format, OF g]
  from a have a': "status (fst (CartViewSet_clear (shop [row 2]) 1 1)) = 200
     \<and> status (fst (CartViewSet_clear (run (shop [row 2]) [ApiClear 1 1]) 1 1)) = 200
     \<and> Cart_items (run (shop [row 2]) [ApiClear 1 1, ApiClear 1 1]) 1 = []"
    by blast
  from b have b': "fst (clear_cart (shop [row 2]) visitor) = \<lparr>status = 500, data = Detail\<rparr>
     \<and> fst (clear_cart (run (shop [row 2]) [WebClearCart visitor]) visitor)
       = \<lparr>status = 500, data = Detail\<rparr>
     \<and> Cart_items (run (shop [row 2]) [WebClearCart visitor, WebClearCart visitor]) 1 = []"
    by (simp del: run.simps)
  from c e have c': "database (run (shop []) [ApiClear 1 1]) = database (shop [])"
    by blast
  from g[of "[row 2]"] g[of "[]"] w e a' b' c' show ?thesis by (simp only: simp_thms)
qed

end
